theory Spec2Isabelle
  imports Main "HOL-Library.Char_ord" "HOL-Library.List_Lexorder"
begin

section \<open>The cluster deployment controller\<close>

text \<open>
  A shallow embedding of \<^verbatim>\<open>pkg/controller/clusterdeployment/clusterdeployment_controller.go\<close>.
  The controller is a single reconcile function over an external resource store. The
  store is an explicit state that every function takes and returns; each call of the
  client that can fail returns its error as a value; every create, update and delete call
  is appended to a log held in the state, whether or not the store accepts it.
\<close>

subsection \<open>Data\<close>

text \<open>
  \<^verbatim>\<open>hivev1.ClusterDeploymentStatus\<close>: the two fields the controller reads and writes.
\<close>

record cluster_deployment_status =
  Installed :: bool
  ClusterUUID :: string

text \<open>
  \<^verbatim>\<open>time.Time\<close> is an instant counted in nanoseconds from the zero instant (January 1 of
  year 1, UTC), so \<^verbatim>\<open>IsZero\<close> is equality with 0. \<^verbatim>\<open>time.Duration\<close> is a signed 64-bit
  count of nanoseconds, kept as an integer with the wrap-around of its addition
  written out in \<open>wrap64\<close>.
\<close>

type_synonym time = int
type_synonym duration = int

record cluster_deployment =
  cd_Namespace :: string
  cd_Name :: string
  cd_CreationTimestamp :: time
  cd_DeletionTimestamp :: "time option"
  cd_Annotations :: "string \<rightharpoonup> string"
  cd_Finalizers :: "string list"
  cd_Status :: cluster_deployment_status

text \<open>\<^verbatim>\<open>kbatch.JobCondition\<close>: \<^verbatim>\<open>Type\<close> and \<^verbatim>\<open>Status\<close> are both string types in Go.\<close>

record job_condition =
  jc_Type :: string
  jc_Status :: string

text \<open>
  \<^verbatim>\<open>kbatch.Job\<close>: its name, the controller owner reference (the owner's namespace and
  name) and \<^verbatim>\<open>Status.Conditions\<close>, a slice, so a list.
\<close>

record job =
  job_Namespace :: string
  job_Name :: string
  job_Owner :: "(string \<times> string) option"
  job_Conditions :: "job_condition list"

record config_map =
  cm_Namespace :: string
  cm_Name :: string
  cm_Data :: "string \<rightharpoonup> string"

text \<open>What \<^verbatim>\<open>json.Unmarshal\<close> yields for an \<^verbatim>\<open>interface{}\<close> target.\<close>

datatype json =
    JNull
  | JBool bool
  | JNumber string
  | JString string
  | JArray "json list"
  | JObject "(string \<times> json) list"

text \<open>
  Errors. \<open>NotFound\<close> is the one error \<^verbatim>\<open>errors.IsNotFound\<close> recognises; \<open>StoreError\<close>
  is any other error of the store; \<open>Message\<close> is an error the controller or a library
  builds itself (\<^verbatim>\<open>fmt.Errorf\<close>), kept by its fixed text.
\<close>

datatype error = NotFound | AlreadyExists | StoreError string | Message string

definition IsNotFound :: "error option \<Rightarrow> bool" where
  "IsNotFound err = (err = Some NotFound)"

text \<open>\<^verbatim>\<open>reconcile.Result\<close> and the pair \<^verbatim>\<open>(reconcile.Result, error)\<close> a cycle returns.\<close>

record result =
  Requeue :: bool
  RequeueAfter :: duration

type_synonym outcome = "result \<times> error option"

definition emptyResult :: result where
  "emptyResult = \<lparr>Requeue = False, RequeueAfter = 0\<rparr>"

subsection \<open>The store and the client\<close>

text \<open>The calls of the client, one constructor for each call site's kind.\<close>

datatype op =
    OpGetClusterDeployment | OpUpdateClusterDeployment | OpDeleteClusterDeployment
  | OpGetServiceAccount | OpCreateServiceAccount
  | OpGetRole | OpCreateRole
  | OpGetRoleBinding | OpCreateRoleBinding
  | OpGetJob | OpCreateJob
  | OpGetConfigMap

text \<open>A mutating call as the controller issued it, with the object it carried.\<close>

datatype call =
    CreateServiceAccount string string
  | CreateRole string string
  | CreateRoleBinding string string
  | CreateJob job
  | UpdateClusterDeployment cluster_deployment
  | DeleteClusterDeployment cluster_deployment

text \<open>
  The store holds the objects of each kind, found by namespace and name, and the log of
  the mutating calls received so far, oldest first.
\<close>

record store =
  clusterDeployments :: "cluster_deployment list"
  jobs :: "job list"
  configMaps :: "config_map list"
  serviceAccounts :: "(string \<times> string) list"
  roles :: "(string \<times> string) list"
  roleBindings :: "(string \<times> string) list"
  calls :: "call list"

text \<open>
  What a cycle takes from outside the source file:
  \<^item> \<open>faults\<close>: the store may fail any call (a transient failure, a version conflict);
    a call whose kind has a fault returns that error and leaves the objects alone;
  \<^item> \<open>now1\<close>, \<open>now2\<close>: the two readings of \<^verbatim>\<open>time.Now()\<close> in \<^verbatim>\<open>Reconcile\<close>, at the
    expiry test and at the computation of the delay;
  \<^item> \<open>ParseDuration\<close>: \<^verbatim>\<open>time.ParseDuration\<close> of the Go library;
  \<^item> \<open>Unmarshal\<close>: \<^verbatim>\<open>json.Unmarshal\<close> into a \<^verbatim>\<open>map[string]interface{}\<close>;
  \<^item> \<open>installJobName\<close>, \<open>uninstallJobName\<close>, \<open>uninstallJobError\<close>: the job generators
    of \<^verbatim>\<open>pkg/install\<close>;
  \<^item> \<open>schemeError\<close>: the failure of \<^verbatim>\<open>controllerutil.SetControllerReference\<close> on a
    scheme that does not know the owner's kind.
\<close>

record env =
  faults :: "op \<Rightarrow> error option"
  now1 :: time
  now2 :: time
  ParseDuration :: "string \<Rightarrow> error + duration"
  Unmarshal :: "string \<Rightarrow> error + (string \<times> json) list"
  installJobName :: "string \<Rightarrow> string"
  uninstallJobName :: "string \<Rightarrow> string"
  uninstallJobError :: "cluster_deployment \<Rightarrow> error option"
  schemeError :: "error option"

definition cd_key :: "cluster_deployment \<Rightarrow> string \<times> string" where
  "cd_key cd = (cd_Namespace cd, cd_Name cd)"

definition job_key :: "job \<Rightarrow> string \<times> string" where
  "job_key j = (job_Namespace j, job_Name j)"

definition cm_key :: "config_map \<Rightarrow> string \<times> string" where
  "cm_key cm = (cm_Namespace cm, cm_Name cm)"

definition logCall :: "call \<Rightarrow> store \<Rightarrow> store" where
  "logCall c s = s\<lparr>calls := calls s @ [c]\<rparr>"

text \<open>
  Modelled from the spec: the client (\<^verbatim>\<open>sigs.k8s.io/controller-runtime/pkg/client\<close>) is
  not under src/. Section 6 gives its contract: get, create, update and delete by kind,
  namespace and name; a name is unique within its kind; deletion guards block the
  physical removal of an object until their set is empty.
\<close>

definition GetClusterDeployment :: "env \<Rightarrow> store \<Rightarrow> string \<times> string \<Rightarrow> error + cluster_deployment" where
  "GetClusterDeployment e s key =
     (case faults e OpGetClusterDeployment of
        Some err \<Rightarrow> Inl err
      | None \<Rightarrow>
          (case find (\<lambda>c. cd_key c = key) (clusterDeployments s) of
             None \<Rightarrow> Inl NotFound
           | Some c \<Rightarrow> Inr c))"

definition GetJob :: "env \<Rightarrow> store \<Rightarrow> string \<times> string \<Rightarrow> error + job" where
  "GetJob e s key =
     (case faults e OpGetJob of
        Some err \<Rightarrow> Inl err
      | None \<Rightarrow>
          (case find (\<lambda>j. job_key j = key) (jobs s) of
             None \<Rightarrow> Inl NotFound
           | Some j \<Rightarrow> Inr j))"

definition GetConfigMap :: "env \<Rightarrow> store \<Rightarrow> string \<times> string \<Rightarrow> error + config_map" where
  "GetConfigMap e s key =
     (case faults e OpGetConfigMap of
        Some err \<Rightarrow> Inl err
      | None \<Rightarrow>
          (case find (\<lambda>c. cm_key c = key) (configMaps s) of
             None \<Rightarrow> Inl NotFound
           | Some c \<Rightarrow> Inr c))"

text \<open>A lookup of an object whose content the controller does not read.\<close>

definition getNamed :: "env \<Rightarrow> op \<Rightarrow> (string \<times> string) list \<Rightarrow> string \<times> string \<Rightarrow> error option" where
  "getNamed e opk objs key =
     (case faults e opk of
        Some err \<Rightarrow> Some err
      | None \<Rightarrow> if key \<in> set objs then None else Some NotFound)"

definition CreateServiceAccountCall :: "env \<Rightarrow> string \<times> string \<Rightarrow> store \<Rightarrow> error option \<times> store" where
  "CreateServiceAccountCall e key s =
     (let s' = logCall (CreateServiceAccount (fst key) (snd key)) s in
      case faults e OpCreateServiceAccount of
        Some err \<Rightarrow> (Some err, s')
      | None \<Rightarrow>
          if key \<in> set (serviceAccounts s) then (Some AlreadyExists, s')
          else (None, s'\<lparr>serviceAccounts := serviceAccounts s @ [key]\<rparr>))"

definition CreateRoleCall :: "env \<Rightarrow> string \<times> string \<Rightarrow> store \<Rightarrow> error option \<times> store" where
  "CreateRoleCall e key s =
     (let s' = logCall (CreateRole (fst key) (snd key)) s in
      case faults e OpCreateRole of
        Some err \<Rightarrow> (Some err, s')
      | None \<Rightarrow>
          if key \<in> set (roles s) then (Some AlreadyExists, s')
          else (None, s'\<lparr>roles := roles s @ [key]\<rparr>))"

definition CreateRoleBindingCall :: "env \<Rightarrow> string \<times> string \<Rightarrow> store \<Rightarrow> error option \<times> store" where
  "CreateRoleBindingCall e key s =
     (let s' = logCall (CreateRoleBinding (fst key) (snd key)) s in
      case faults e OpCreateRoleBinding of
        Some err \<Rightarrow> (Some err, s')
      | None \<Rightarrow>
          if key \<in> set (roleBindings s) then (Some AlreadyExists, s')
          else (None, s'\<lparr>roleBindings := roleBindings s @ [key]\<rparr>))"

definition CreateJobCall :: "env \<Rightarrow> job \<Rightarrow> store \<Rightarrow> error option \<times> store" where
  "CreateJobCall e j s =
     (let s' = logCall (CreateJob j) s in
      case faults e OpCreateJob of
        Some err \<Rightarrow> (Some err, s')
      | None \<Rightarrow>
          if job_key j \<in> job_key ` set (jobs s) then (Some AlreadyExists, s')
          else (None, s'\<lparr>jobs := jobs s @ [j]\<rparr>))"

text \<open>
  An update replaces the stored object of that name. When the object carries a deletion
  request and the update leaves it no deletion guard, the store reclaims it.
\<close>

definition UpdateCall :: "env \<Rightarrow> cluster_deployment \<Rightarrow> store \<Rightarrow> error option \<times> store" where
  "UpdateCall e cd s =
     (let s' = logCall (UpdateClusterDeployment cd) s in
      case faults e OpUpdateClusterDeployment of
        Some err \<Rightarrow> (Some err, s')
      | None \<Rightarrow>
          if cd_key cd \<notin> cd_key ` set (clusterDeployments s) then (Some NotFound, s')
          else if cd_DeletionTimestamp cd \<noteq> None \<and> cd_Finalizers cd = []
          then (None, s'\<lparr>clusterDeployments :=
                  filter (\<lambda>c. cd_key c \<noteq> cd_key cd) (clusterDeployments s)\<rparr>)
          else (None, s'\<lparr>clusterDeployments :=
                  map (\<lambda>c. if cd_key c = cd_key cd then cd else c) (clusterDeployments s)\<rparr>))"

text \<open>
  A delete request removes an object without deletion guards; an object with guards gets
  its deletion request recorded and stays.
\<close>

definition markDeleted :: "time \<Rightarrow> cluster_deployment \<Rightarrow> cluster_deployment" where
  "markDeleted t c =
     (case cd_DeletionTimestamp c of
        None \<Rightarrow> c\<lparr>cd_DeletionTimestamp := Some t\<rparr>
      | Some _ \<Rightarrow> c)"

definition DeleteCall :: "env \<Rightarrow> cluster_deployment \<Rightarrow> store \<Rightarrow> error option \<times> store" where
  "DeleteCall e cd s =
     (let s' = logCall (DeleteClusterDeployment cd) s in
      case faults e OpDeleteClusterDeployment of
        Some err \<Rightarrow> (Some err, s')
      | None \<Rightarrow>
          if cd_key cd \<notin> cd_key ` set (clusterDeployments s) then (Some NotFound, s')
          else (None, s'\<lparr>clusterDeployments :=
                  map (\<lambda>c. if cd_key c = cd_key cd then markDeleted (now1 e) c else c)
                    (filter (\<lambda>c. cd_key c \<noteq> cd_key cd \<or> cd_Finalizers c \<noteq> [])
                       (clusterDeployments s))\<rparr>))"

subsection \<open>Constants\<close>

definition serviceAccountName :: string where
  "serviceAccountName = ''cluster-installer''"

definition roleName :: string where
  "roleName = ''cluster-installer''"

definition roleBindingName :: string where
  "roleBindingName = ''cluster-installer''"

definition deleteAfterAnnotation :: string where
  "deleteAfterAnnotation = ''hive.openshift.io/delete-after''"

text \<open>
  \<^verbatim>\<open>hivev1.FinalizerDeprovision\<close>, the deletion guard, is declared in
  \<^verbatim>\<open>pkg/apis/hive/v1alpha1\<close>, which is not under src/. No proof below depends on its
  value.
\<close>

definition FinalizerDeprovision :: string where
  "FinalizerDeprovision = ''hive.openshift.io/deprovision''"

definition JobComplete :: string where
  "JobComplete = ''Complete''"

definition JobFailed :: string where
  "JobFailed = ''Failed''"

definition ConditionTrue :: string where
  "ConditionTrue = ''True''"

definition ConditionFalse :: string where
  "ConditionFalse = ''False''"

definition Second :: duration where
  "Second = 1000000000"

subsection \<open>Time\<close>

definition maxDuration :: duration where
  "maxDuration = 2 ^ 63 - 1"

definition minDuration :: duration where
  "minDuration = - (2 ^ 63)"

definition wrap64 :: "int \<Rightarrow> duration" where
  "wrap64 x = (x + 2 ^ 63) mod 2 ^ 64 - 2 ^ 63"

definition time_IsZero :: "time \<Rightarrow> bool" where
  "time_IsZero t = (t = 0)"

definition time_Add :: "time \<Rightarrow> duration \<Rightarrow> time" where
  "time_Add t d = t + d"

definition time_After :: "time \<Rightarrow> time \<Rightarrow> bool" where
  "time_After t u = (u < t)"

text \<open>\<^verbatim>\<open>Time.Sub\<close> saturates at the least and the greatest duration.\<close>

definition time_Sub :: "time \<Rightarrow> time \<Rightarrow> duration" where
  "time_Sub t u =
     (if minDuration \<le> t - u \<and> t - u \<le> maxDuration then t - u
      else if t < u then minDuration
      else maxDuration)"

subsection \<open>Conditions and finalizers\<close>

text \<open>
  \<^verbatim>\<open>getJobConditionStatus\<close> (lines 437 to 444): the loop returns at the first condition
  of the type asked for.
\<close>

fun conditionStatus :: "job_condition list \<Rightarrow> string \<Rightarrow> string" where
  "conditionStatus [] conditionType = ConditionFalse"
| "conditionStatus (condition # rest) conditionType =
     (if jc_Type condition = conditionType then jc_Status condition
      else conditionStatus rest conditionType)"

definition getJobConditionStatus :: "job \<Rightarrow> string \<Rightarrow> string" where
  "getJobConditionStatus j conditionType = conditionStatus (job_Conditions j) conditionType"

definition isSuccessful :: "job \<Rightarrow> bool" where
  "isSuccessful j = (getJobConditionStatus j JobComplete = ConditionTrue)"

definition isFailed :: "job \<Rightarrow> bool" where
  "isFailed j = (getJobConditionStatus j JobFailed = ConditionTrue)"

fun hasFinalizerLoop :: "string list \<Rightarrow> string \<Rightarrow> bool" where
  "hasFinalizerLoop [] finalizer = False"
| "hasFinalizerLoop (f # fs) finalizer = (if f = finalizer then True else hasFinalizerLoop fs finalizer)"

definition HasFinalizer :: "cluster_deployment \<Rightarrow> string \<Rightarrow> bool" where
  "HasFinalizer object finalizer = hasFinalizerLoop (cd_Finalizers object) finalizer"

text \<open>
  \<^verbatim>\<open>sets.NewString(xs...)\<close> followed by \<^verbatim>\<open>List()\<close>: the distinct strings, sorted.
\<close>

definition stringSetList :: "string list \<Rightarrow> string list" where
  "stringSetList xs = sort (remdups xs)"

definition AddFinalizer :: "cluster_deployment \<Rightarrow> string \<Rightarrow> cluster_deployment" where
  "AddFinalizer object finalizer =
     object\<lparr>cd_Finalizers := stringSetList (cd_Finalizers object @ [finalizer])\<rparr>"

definition DeleteFinalizer :: "cluster_deployment \<Rightarrow> string \<Rightarrow> cluster_deployment" where
  "DeleteFinalizer object finalizer =
     object\<lparr>cd_Finalizers := stringSetList (filter (\<lambda>f. f \<noteq> finalizer) (cd_Finalizers object))\<rparr>"

definition addClusterDeploymentFinalizer :: "env \<Rightarrow> cluster_deployment \<Rightarrow> store \<Rightarrow> error option \<times> store" where
  "addClusterDeploymentFinalizer e cd s = UpdateCall e (AddFinalizer cd FinalizerDeprovision) s"

definition removeClusterDeploymentFinalizer :: "env \<Rightarrow> cluster_deployment \<Rightarrow> store \<Rightarrow> error option \<times> store" where
  "removeClusterDeploymentFinalizer e cd s = UpdateCall e (DeleteFinalizer cd FinalizerDeprovision) s"

subsection \<open>Work items\<close>

text \<open>
  Modelled from the spec: \<^verbatim>\<open>install.GenerateInstallerJob\<close> and
  \<^verbatim>\<open>install.GenerateUninstallerJob\<close> are in \<^verbatim>\<open>pkg/install\<close>, which is not under src/.
  Section 4.3: the name of a work item is a fixed function of the resource's name; the
  controller reads nothing of a work item but its name and its completion conditions.
  Section 6: the execution backend runs a work item and reports its conditions back, so
  a generated work item carries none. The uninstall generator can fail (section 4.5,
  step 1).
\<close>

definition GenerateInstallerJob :: "env \<Rightarrow> cluster_deployment \<Rightarrow> job" where
  "GenerateInstallerJob e cd =
     \<lparr>job_Namespace = cd_Namespace cd, job_Name = installJobName e (cd_Name cd),
      job_Owner = None, job_Conditions = []\<rparr>"

definition GenerateUninstallerJob :: "env \<Rightarrow> cluster_deployment \<Rightarrow> error + job" where
  "GenerateUninstallerJob e cd =
     (case uninstallJobError e cd of
        Some err \<Rightarrow> Inl err
      | None \<Rightarrow>
          Inr \<lparr>job_Namespace = cd_Namespace cd, job_Name = uninstallJobName e (cd_Name cd),
               job_Owner = None, job_Conditions = []\<rparr>)"

text \<open>
  \<^verbatim>\<open>controllerutil.SetControllerReference\<close> of the controller-runtime library: it fails
  on a scheme that does not know the owner's kind and on an object that another
  controller owns; otherwise the object gets the owner link.
\<close>

definition SetControllerReference :: "env \<Rightarrow> cluster_deployment \<Rightarrow> job \<Rightarrow> error + job" where
  "SetControllerReference e cd j =
     (case schemeError e of
        Some err \<Rightarrow> Inl err
      | None \<Rightarrow>
          (case job_Owner j of
             None \<Rightarrow> Inr (j\<lparr>job_Owner := Some (cd_key cd)\<rparr>)
           | Some owner \<Rightarrow>
               if owner = cd_key cd then Inr j
               else Inl (Message ''object is already owned by another controller'')))"

text \<open>\<^verbatim>\<open>&kbatch.Job{}\<close>, the zero value a failed \<^verbatim>\<open>Get\<close> leaves untouched.\<close>

definition emptyJob :: job where
  "emptyJob = \<lparr>job_Namespace = [], job_Name = [], job_Owner = None, job_Conditions = []\<rparr>"

subsection \<open>Access provisioning\<close>

text \<open>
  \<^verbatim>\<open>setupClusterInstallServiceAccount\<close> (lines 338 to 433) is three blocks of the same
  shape, one for the service account, one for the role, one for the role binding; each
  block is a definition here. A lookup error other than not-found returns; not-found
  creates; an error of the create returns. The service account the function returns is
  dropped by its only caller (line 139), so the model returns the error alone.
\<close>

definition ensureServiceAccount :: "env \<Rightarrow> string \<Rightarrow> store \<Rightarrow> error option \<times> store" where
  "ensureServiceAccount e namespace s =
     (let err = getNamed e OpGetServiceAccount (serviceAccounts s) (namespace, serviceAccountName) in
      if err \<noteq> None \<and> \<not> IsNotFound err
      then (Some (Message ''error checking for existing serviceaccount''), s)
      else if IsNotFound err
      then (case CreateServiceAccountCall e (namespace, serviceAccountName) s of
              (Some _, s') \<Rightarrow> (Some (Message ''error creating serviceaccount''), s')
            | (None, s') \<Rightarrow> (None, s'))
      else (None, s))"

definition ensureRole :: "env \<Rightarrow> string \<Rightarrow> store \<Rightarrow> error option \<times> store" where
  "ensureRole e namespace s =
     (let err = getNamed e OpGetRole (roles s) (namespace, roleName) in
      if err \<noteq> None \<and> \<not> IsNotFound err
      then (Some (Message ''error checking for existing role''), s)
      else if IsNotFound err
      then (case CreateRoleCall e (namespace, roleName) s of
              (Some _, s') \<Rightarrow> (Some (Message ''error creating role''), s')
            | (None, s') \<Rightarrow> (None, s'))
      else (None, s))"

definition ensureRoleBinding :: "env \<Rightarrow> string \<Rightarrow> store \<Rightarrow> error option \<times> store" where
  "ensureRoleBinding e namespace s =
     (let err = getNamed e OpGetRoleBinding (roleBindings s) (namespace, roleBindingName) in
      if err \<noteq> None \<and> \<not> IsNotFound err
      then (Some (Message ''error checking for existing rolebinding''), s)
      else if IsNotFound err
      then (case CreateRoleBindingCall e (namespace, roleBindingName) s of
              (Some _, s') \<Rightarrow> (Some (Message ''error creating rolebinding''), s')
            | (None, s') \<Rightarrow> (None, s'))
      else (None, s))"

definition setupClusterInstallServiceAccount :: "env \<Rightarrow> string \<Rightarrow> store \<Rightarrow> error option \<times> store" where
  "setupClusterInstallServiceAccount e namespace s =
     (case ensureServiceAccount e namespace s of
        (Some err, s1) \<Rightarrow> (Some err, s1)
      | (None, s1) \<Rightarrow>
          (case ensureRole e namespace s1 of
             (Some err, s2) \<Rightarrow> (Some err, s2)
           | (None, s2) \<Rightarrow> ensureRoleBinding e namespace s2))"

subsection \<open>Status\<close>

text \<open>
  Lines 240 to 266 of \<^verbatim>\<open>updateClusterDeploymentStatus\<close>: the cluster identifier is read
  from the config map named after the resource, along the path aws, identifier,
  tectonicClusterID. A key that \<^verbatim>\<open>Data\<close> lacks reads as the empty string.
\<close>

definition metadataError :: error where
  "metadataError = Message ''cluster metadata did not contain aws.identifier.tectonicClusterID''"

definition metadataJSON :: "config_map \<Rightarrow> string" where
  "metadataJSON cm = (case cm_Data cm ''metadata.json'' of None \<Rightarrow> [] | Some payload \<Rightarrow> payload)"

definition lookupClusterUUID :: "env \<Rightarrow> cluster_deployment \<Rightarrow> store \<Rightarrow> error + string" where
  "lookupClusterUUID e cd s =
     (let configMapName = cd_Name cd @ ''-metadata'' in
      case GetConfigMap e s (cd_Namespace cd, configMapName) of
        Inl err \<Rightarrow> Inl err
      | Inr metadataCfgMap \<Rightarrow>
          (case Unmarshal e (metadataJSON metadataCfgMap) of
             Inl err \<Rightarrow> Inl err
           | Inr objMap \<Rightarrow>
               (case map_of objMap ''aws'' of
                  Some (JObject aws) \<Rightarrow>
                    (case map_of aws ''identifier'' of
                       Some (JObject identifier) \<Rightarrow>
                         (case map_of identifier ''tectonicClusterID'' of
                            Some (JString uuid) \<Rightarrow> Inr uuid
                          | _ \<Rightarrow> Inl metadataError)
                     | _ \<Rightarrow> Inl metadataError)
                | _ \<Rightarrow> Inl metadataError)))"

text \<open>
  \<^verbatim>\<open>updateClusterDeploymentStatus\<close> (lines 229 to 283), in its two halves. The job is a
  pointer in Go and may be nil, so it is an option here. Lines 232 to 268 compute the
  status on the working copy, or return an error:
\<close>

definition computeStatus ::
    "env \<Rightarrow> cluster_deployment \<Rightarrow> job option \<Rightarrow> store \<Rightarrow> error + cluster_deployment" where
  "computeStatus e origCD jobp s =
     (let cd = (case jobp of
                  Some j \<Rightarrow> origCD\<lparr>cd_Status := (cd_Status origCD)\<lparr>Installed := isSuccessful j\<rparr>\<rparr>
                | None \<Rightarrow> origCD) in
      if Installed (cd_Status cd) \<and> ClusterUUID (cd_Status cd) = []
      then (case lookupClusterUUID e cd s of
              Inl err \<Rightarrow> Inl err
            | Inr uuid \<Rightarrow> Inr (cd\<lparr>cd_Status := (cd_Status cd)\<lparr>ClusterUUID := uuid\<rparr>\<rparr>))
      else Inr cd)"

text \<open>Lines 270 to 282 update the resource when the status has changed:\<close>

definition updateClusterDeploymentStatus ::
    "env \<Rightarrow> cluster_deployment \<Rightarrow> job option \<Rightarrow> store \<Rightarrow> error option \<times> store" where
  "updateClusterDeploymentStatus e origCD jobp s =
     (case computeStatus e origCD jobp s of
        Inl err \<Rightarrow> (Some err, s)
      | Inr cd \<Rightarrow>
          if cd_Status cd \<noteq> cd_Status origCD then UpdateCall e cd s
          else (None, s))"

subsection \<open>The deletion path\<close>

text \<open>\<^verbatim>\<open>syncDeletedClusterDeployment\<close> (lines 285 to 322).\<close>

definition syncDeletedClusterDeployment :: "env \<Rightarrow> cluster_deployment \<Rightarrow> store \<Rightarrow> outcome \<times> store" where
  "syncDeletedClusterDeployment e cd s =
     (case GenerateUninstallerJob e cd of
        Inl err \<Rightarrow> ((emptyResult, Some err), s)
      | Inr generated \<Rightarrow>
          (case SetControllerReference e cd generated of
             Inl err \<Rightarrow> ((emptyResult, Some err), s)
           | Inr uninstallJob \<Rightarrow>
               (case GetJob e s (job_key uninstallJob) of
                  Inl err \<Rightarrow>
                    if IsNotFound (Some err)
                    then (case CreateJobCall e uninstallJob s of
                            (Some cerr, s') \<Rightarrow> ((emptyResult, Some cerr), s')
                          | (None, s') \<Rightarrow> ((emptyResult, None), s'))
                    else ((emptyResult, Some err), s)
                | Inr existingJob \<Rightarrow>
                    if isSuccessful existingJob
                    then (case removeClusterDeploymentFinalizer e cd s of
                            (err, s') \<Rightarrow> ((emptyResult, err), s'))
                    else ((emptyResult, None), s))))"

subsection \<open>The active path\<close>

text \<open>
  Lines 152 to 176 of \<^verbatim>\<open>Reconcile\<close>: the delete-after annotation. \<open>Inl\<close> is a return
  from \<^verbatim>\<open>Reconcile\<close> with that outcome; \<open>Inr\<close> is the value of \<^verbatim>\<open>requeueAfter\<close> the
  cycle goes on with. The delete call's error is dropped, as line 168 drops it.
\<close>

definition checkDeleteAfter :: "env \<Rightarrow> cluster_deployment \<Rightarrow> store \<Rightarrow> (outcome + duration) \<times> store" where
  "checkDeleteAfter e cd s =
     (case cd_Annotations cd deleteAfterAnnotation of
        None \<Rightarrow> (Inr 0, s)
      | Some deleteAfter \<Rightarrow>
          (case ParseDuration e deleteAfter of
             Inl err \<Rightarrow>
               (Inl (emptyResult, Some (Message ''error parsing hive.openshift.io/delete-after as a duration'')), s)
           | Inr dur \<Rightarrow>
               if \<not> time_IsZero (cd_CreationTimestamp cd)
               then (let expiry = time_Add (cd_CreationTimestamp cd) dur in
                     if time_After (now1 e) expiry
                     then (case DeleteCall e cd s of
                             (_, s') \<Rightarrow> (Inl (emptyResult, None), s'))
                     else (Inr (wrap64 (time_Sub expiry (now2 e) + 60 * Second)), s))
               else (Inr 0, s)))"

text \<open>
  Lines 192 to 212: the lookup of the install job. \<open>Inl\<close> is the error \<^verbatim>\<open>Reconcile\<close>
  returns; \<open>Inr\<close> is the value of \<^verbatim>\<open>existingJob\<close> afterwards, which stays the zero
  value when the lookup did not find the job.
\<close>

definition syncInstallJob :: "env \<Rightarrow> cluster_deployment \<Rightarrow> job \<Rightarrow> store \<Rightarrow> (error + job) \<times> store" where
  "syncInstallJob e cd j s =
     (case GetJob e s (job_key j) of
        Inl err \<Rightarrow>
          if IsNotFound (Some err)
          then (if Installed (cd_Status cd) then (Inr emptyJob, s)
                else (case CreateJobCall e j s of
                        (Some cerr, s') \<Rightarrow> (Inl cerr, s')
                      | (None, s') \<Rightarrow> (Inr emptyJob, s')))
          else (Inl err, s)
      | Inr existingJob \<Rightarrow> (Inr existingJob, s))"

text \<open>Lines 178 to 227 of \<^verbatim>\<open>Reconcile\<close>.\<close>

definition reconcileInstall :: "env \<Rightarrow> cluster_deployment \<Rightarrow> duration \<Rightarrow> store \<Rightarrow> outcome \<times> store" where
  "reconcileInstall e cd requeueAfter s =
     (if \<not> HasFinalizer cd FinalizerDeprovision
      then (case addClusterDeploymentFinalizer e cd s of
              (err, s') \<Rightarrow> ((emptyResult, err), s'))
      else
        (case SetControllerReference e cd (GenerateInstallerJob e cd) of
           Inl err \<Rightarrow> ((emptyResult, Some err), s)
         | Inr j \<Rightarrow>
             (case syncInstallJob e cd j s of
                (Inl err, s1) \<Rightarrow> ((emptyResult, Some err), s1)
              | (Inr existingJob, s1) \<Rightarrow>
                  (case updateClusterDeploymentStatus e cd (Some existingJob) s1 of
                     (Some err, s2) \<Rightarrow> ((emptyResult, Some err), s2)
                   | (None, s2) \<Rightarrow>
                       if requeueAfter \<noteq> 0
                       then ((\<lparr>Requeue = True, RequeueAfter = requeueAfter\<rparr>, None), s2)
                       else ((emptyResult, None), s2)))))"

text \<open>\<^verbatim>\<open>Reconcile\<close> (lines 119 to 227); the request is the namespace and the name.\<close>

definition Reconcile :: "env \<Rightarrow> string \<times> string \<Rightarrow> store \<Rightarrow> outcome \<times> store" where
  "Reconcile e request s =
     (case GetClusterDeployment e s request of
        Inl err \<Rightarrow>
          if IsNotFound (Some err) then ((emptyResult, None), s)
          else ((emptyResult, Some err), s)
      | Inr cd \<Rightarrow>
          (case setupClusterInstallServiceAccount e (cd_Namespace cd) s of
             (Some err, s1) \<Rightarrow> ((emptyResult, Some err), s1)
           | (None, s1) \<Rightarrow>
               (case cd_DeletionTimestamp cd of
                  Some _ \<Rightarrow>
                    if \<not> HasFinalizer cd FinalizerDeprovision then ((emptyResult, None), s1)
                    else syncDeletedClusterDeployment e cd s1
                | None \<Rightarrow>
                    (case checkDeleteAfter e cd s1 of
                       (Inl out, s2) \<Rightarrow> (out, s2)
                     | (Inr requeueAfter, s2) \<Rightarrow> reconcileInstall e cd requeueAfter s2))))"

subsection \<open>Auxiliary definitions\<close>

text \<open>
  The calls a cycle issued: what the log of the store after the cycle holds beyond the
  log of the store before it.
\<close>

definition issued :: "store \<Rightarrow> store \<Rightarrow> call list" where
  "issued s s' = drop (length (calls s)) (calls s')"

text \<open>The creates that access provisioning can issue in a namespace.\<close>

definition accessCalls :: "string \<Rightarrow> call set" where
  "accessCalls namespace =
     {CreateServiceAccount namespace serviceAccountName, CreateRole namespace roleName,
      CreateRoleBinding namespace roleBindingName}"

text \<open>Two stores hold the same resources, jobs and config maps.\<close>

definition sameResources :: "store \<Rightarrow> store \<Rightarrow> bool" where
  "sameResources s s' \<longleftrightarrow>
     clusterDeployments s' = clusterDeployments s \<and> jobs s' = jobs s \<and> configMaps s' = configMaps s"

text \<open>The three access objects exist in the namespace.\<close>

definition accessPresent :: "string \<Rightarrow> store \<Rightarrow> bool" where
  "accessPresent namespace s \<longleftrightarrow>
     (namespace, serviceAccountName) \<in> set (serviceAccounts s) \<and>
     (namespace, roleName) \<in> set (roles s) \<and>
     (namespace, roleBindingName) \<in> set (roleBindings s)"

text \<open>No call of the store fails for a reason of the store's own.\<close>

definition noFaults :: "env \<Rightarrow> bool" where
  "noFaults e \<longleftrightarrow> faults e = (\<lambda>_. None)"

text \<open>The generated install job with its owner link, as line 186 leaves it.\<close>

definition installJob :: "env \<Rightarrow> cluster_deployment \<Rightarrow> job" where
  "installJob e cd = (GenerateInstallerJob e cd)\<lparr>job_Owner := Some (cd_key cd)\<rparr>"

text \<open>The generated uninstall job with its owner link, as line 293 leaves it.\<close>

definition uninstallJob :: "env \<Rightarrow> cluster_deployment \<Rightarrow> job" where
  "uninstallJob e cd =
     \<lparr>job_Namespace = cd_Namespace cd, job_Name = uninstallJobName e (cd_Name cd),
      job_Owner = Some (cd_key cd), job_Conditions = []\<rparr>"

text \<open>
  The expiry test of lines 163 to 166 as a predicate: the annotation is there and parses,
  the creation timestamp is not zero, and the first clock reading is after creation plus
  duration.
\<close>

definition expired :: "env \<Rightarrow> cluster_deployment \<Rightarrow> bool" where
  "expired e cd =
     (case cd_Annotations cd deleteAfterAnnotation of
        None \<Rightarrow> False
      | Some a \<Rightarrow>
          (case ParseDuration e a of
             Inl _ \<Rightarrow> False
           | Inr dur \<Rightarrow> cd_CreationTimestamp cd \<noteq> 0 \<and> cd_CreationTimestamp cd + dur < now1 e))"

text \<open>The result of a cycle that ran through (lines 221 to 226).\<close>

definition resultOf :: "duration \<Rightarrow> result" where
  "resultOf d = (if d \<noteq> 0 then \<lparr>Requeue = True, RequeueAfter = d\<rparr> else emptyResult)"

text \<open>Two stores hold the same access objects.\<close>

definition sameAccess :: "store \<Rightarrow> store \<Rightarrow> bool" where
  "sameAccess s s' \<longleftrightarrow>
     serviceAccounts s' = serviceAccounts s \<and> roles s' = roles s \<and> roleBindings s' = roleBindings s"

text \<open>Inputs for the examples: a parser and a decoder that know a few strings.\<close>

definition exampleParse :: "string \<Rightarrow> error + duration" where
  "exampleParse a =
     (if a = ''1h'' then Inr (3600 * Second)
      else if a = ''48h'' then Inr (172800 * Second)
      else Inl (Message ''time: invalid duration''))"

definition exampleUnmarshal :: "string \<Rightarrow> error + (string \<times> json) list" where
  \<open>exampleUnmarshal payload =
     (if payload = ''{"aws":{"identifier":{"tectonicClusterID":"abc"}}}''
      then Inr [(''aws'', JObject [(''identifier'', JObject [(''tectonicClusterID'', JString ''abc'')])])]
      else if payload = ''{"aws":{}}'' then Inr [(''aws'', JObject [])]
      else Inl (Message ''unexpected end of JSON input''))\<close>

text \<open>An environment without faults whose clock reads \<open>now\<close> both times.\<close>

definition exampleEnv :: "time \<Rightarrow> env" where
  "exampleEnv now =
     \<lparr>faults = (\<lambda>_. None), now1 = now, now2 = now,
      ParseDuration = exampleParse, Unmarshal = exampleUnmarshal,
      installJobName = (\<lambda>n. n @ ''-install''), uninstallJobName = (\<lambda>n. n @ ''-uninstall''),
      uninstallJobError = (\<lambda>_. None), schemeError = None\<rparr>"

text \<open>
  A new resource: no guard, no annotation, not installed, created on 1 December 2018 at
  0:00 UTC, counted in seconds from the zero instant.
\<close>

definition exampleCD :: cluster_deployment where
  "exampleCD =
     \<lparr>cd_Namespace = ''ns'', cd_Name = ''c1'', cd_CreationTimestamp = 63679219200 * Second,
      cd_DeletionTimestamp = None, cd_Annotations = Map.empty, cd_Finalizers = [],
      cd_Status = \<lparr>Installed = False, ClusterUUID = []\<rparr>\<rparr>"

text \<open>A store that holds one resource, the given jobs and the three access objects.\<close>

definition exampleStore :: "cluster_deployment \<Rightarrow> job list \<Rightarrow> store" where
  "exampleStore cd js =
     \<lparr>clusterDeployments = [cd], jobs = js, configMaps = [],
      serviceAccounts = [(''ns'', ''cluster-installer'')],
      roles = [(''ns'', ''cluster-installer'')],
      roleBindings = [(''ns'', ''cluster-installer'')],
      calls = []\<rparr>"

definition guardedCD :: cluster_deployment where
  "guardedCD = exampleCD\<lparr>cd_Finalizers := [FinalizerDeprovision]\<rparr>"

definition installedCD :: cluster_deployment where
  "installedCD = guardedCD\<lparr>cd_Status := \<lparr>Installed = True, ClusterUUID = ''abc''\<rparr>\<rparr>"

definition deletedCD :: cluster_deployment where
  "deletedCD = installedCD\<lparr>cd_DeletionTimestamp := Some (63679223200 * Second)\<rparr>"

definition completeUninstallJob :: job where
  "completeUninstallJob =
     \<lparr>job_Namespace = ''ns'', job_Name = ''c1-uninstall'', job_Owner = Some (''ns'', ''c1''),
      job_Conditions = [\<lparr>jc_Type = ''Complete'', jc_Status = ''True''\<rparr>]\<rparr>"

definition pendingUninstallJob :: job where
  "pendingUninstallJob = completeUninstallJob\<lparr>job_Conditions := []\<rparr>"

definition twoCompleteUninstallJob :: job where
  "twoCompleteUninstallJob =
     completeUninstallJob\<lparr>job_Conditions := [\<lparr>jc_Type = ''Complete'', jc_Status = ''False''\<rparr>,
                                               \<lparr>jc_Type = ''Complete'', jc_Status = ''True''\<rparr>]\<rparr>"

definition twoCompleteJob :: job where
  "twoCompleteJob =
     \<lparr>job_Namespace = ''ns'', job_Name = ''c1-install'', job_Owner = Some (''ns'', ''c1''),
      job_Conditions = [\<lparr>jc_Type = ''Complete'', jc_Status = ''False''\<rparr>,
                        \<lparr>jc_Type = ''Complete'', jc_Status = ''True''\<rparr>]\<rparr>"

definition failedCompleteJob :: job where
  "failedCompleteJob =
     \<lparr>job_Namespace = ''ns'', job_Name = ''c1-install'', job_Owner = Some (''ns'', ''c1''),
      job_Conditions = [\<lparr>jc_Type = ''Failed'', jc_Status = ''True''\<rparr>,
                        \<lparr>jc_Type = ''Complete'', jc_Status = ''True''\<rparr>]\<rparr>"

definition pendingInstallJob :: job where
  "pendingInstallJob =
     \<lparr>job_Namespace = ''ns'', job_Name = ''c1-install'', job_Owner = Some (''ns'', ''c1''),
      job_Conditions = []\<rparr>"

definition completeInstallJob :: job where
  "completeInstallJob =
     pendingInstallJob\<lparr>job_Conditions := [\<lparr>jc_Type = ''Complete'', jc_Status = ''True''\<rparr>]\<rparr>"

text \<open>A store in a namespace that has no access object yet.\<close>

definition freshStore :: store where
  "freshStore =
     \<lparr>clusterDeployments = [exampleCD], jobs = [], configMaps = [],
      serviceAccounts = [], roles = [], roleBindings = [], calls = []\<rparr>"

definition provisionedStore :: store where
  "provisionedStore =
     \<lparr>clusterDeployments = [exampleCD], jobs = [], configMaps = [],
      serviceAccounts = [(''ns'', ''cluster-installer'')],
      roles = [(''ns'', ''cluster-installer'')],
      roleBindings = [(''ns'', ''cluster-installer'')],
      calls = [CreateServiceAccount ''ns'' ''cluster-installer'',
               CreateRole ''ns'' ''cluster-installer'',
               CreateRoleBinding ''ns'' ''cluster-installer'']\<rparr>"

text \<open>Resources with a delete-after annotation.\<close>

definition oneHourCD :: cluster_deployment where
  "oneHourCD = guardedCD\<lparr>cd_Annotations := [deleteAfterAnnotation \<mapsto> ''1h'']\<rparr>"

definition zeroCreationCD :: cluster_deployment where
  "zeroCreationCD = oneHourCD\<lparr>cd_CreationTimestamp := 0\<rparr>"

definition twoDaysCD :: cluster_deployment where
  "twoDaysCD = guardedCD\<lparr>cd_Annotations := [deleteAfterAnnotation \<mapsto> ''48h'']\<rparr>"

definition twoDaysUnguardedCD :: cluster_deployment where
  "twoDaysUnguardedCD = exampleCD\<lparr>cd_Annotations := [deleteAfterAnnotation \<mapsto> ''48h'']\<rparr>"

text \<open>An environment whose store refuses every delete.\<close>

definition refusingEnv :: "time \<Rightarrow> env" where
  "refusingEnv now =
     (exampleEnv now)\<lparr>faults :=
        (\<lambda>k. if k = OpDeleteClusterDeployment then Some (StoreError ''conflict'') else None)\<rparr>"

text \<open>Metadata config maps: one that decodes to the identifier, one without the path.\<close>

definition metadataCM :: config_map where
  \<open>metadataCM =
     \<lparr>cm_Namespace = ''ns'', cm_Name = ''c1-metadata'',
      cm_Data = [''metadata.json'' \<mapsto> ''{"aws":{"identifier":{"tectonicClusterID":"abc"}}}'']\<rparr>\<close>

definition brokenMetadataCM :: config_map where
  \<open>brokenMetadataCM =
     \<lparr>cm_Namespace = ''ns'', cm_Name = ''c1-metadata'',
      cm_Data = [''metadata.json'' \<mapsto> ''{"aws":{}}'']\<rparr>\<close>

definition emptyMetadataCM :: config_map where
  "emptyMetadataCM = \<lparr>cm_Namespace = ''ns'', cm_Name = ''c1-metadata'', cm_Data = Map.empty\<rparr>"

definition completedStore :: "config_map list \<Rightarrow> store" where
  "completedStore cms = (exampleStore guardedCD [completeInstallJob])\<lparr>configMaps := cms\<rparr>"

section \<open>Properties\<close>

lemma ConditionFalse_neq_True: "ConditionFalse \<noteq> ConditionTrue"
  by (simp add: ConditionFalse_def ConditionTrue_def)

lemma hasFinalizerLoop_set: "hasFinalizerLoop fs f \<longleftrightarrow> f \<in> set fs"
  by (induction fs) auto

lemma HasFinalizer_set: "HasFinalizer cd f \<longleftrightarrow> f \<in> set (cd_Finalizers cd)"
  by (simp add: HasFinalizer_def hasFinalizerLoop_set)

lemma set_stringSetList: "set (stringSetList xs) = set xs"
  by (simp add: stringSetList_def)

lemma HasFinalizer_AddFinalizer: "HasFinalizer (AddFinalizer cd f) g \<longleftrightarrow> g = f \<or> HasFinalizer cd g"
  by (auto simp: HasFinalizer_set AddFinalizer_def set_stringSetList)

lemma HasFinalizer_DeleteFinalizer: "HasFinalizer (DeleteFinalizer cd f) g \<longleftrightarrow> g \<noteq> f \<and> HasFinalizer cd g"
  by (auto simp: HasFinalizer_set DeleteFinalizer_def set_stringSetList)

lemma AddFinalizer_fields:
  "cd_Status (AddFinalizer cd f) = cd_Status cd"
  "cd_key (AddFinalizer cd f) = cd_key cd"
  "cd_DeletionTimestamp (AddFinalizer cd f) = cd_DeletionTimestamp cd"
  by (simp_all add: AddFinalizer_def cd_key_def)

lemma DeleteFinalizer_fields:
  "cd_Status (DeleteFinalizer cd f) = cd_Status cd"
  "cd_key (DeleteFinalizer cd f) = cd_key cd"
  "cd_DeletionTimestamp (DeleteFinalizer cd f) = cd_DeletionTimestamp cd"
  by (simp_all add: DeleteFinalizer_def cd_key_def)

lemma find_Some_key: "find P xs = Some x \<Longrightarrow> P x \<and> x \<in> set xs"
  by (induction xs) (auto split: if_splits)

lemma GetClusterDeployment_Inr:
  assumes "GetClusterDeployment e s req = Inr cd"
  shows "cd_key cd = req" and "cd \<in> set (clusterDeployments s)"
    and "faults e OpGetClusterDeployment = None"
  using assms find_Some_key [of "\<lambda>c. cd_key c = req" "clusterDeployments s" cd]
  by (auto simp: GetClusterDeployment_def split: option.splits)

lemma GetClusterDeployment_cong:
  "clusterDeployments s' = clusterDeployments s \<Longrightarrow> GetClusterDeployment e s' = GetClusterDeployment e s"
  by (rule ext) (simp add: GetClusterDeployment_def cong: option.case_cong)

lemma GetJob_cong: "jobs s' = jobs s \<Longrightarrow> GetJob e s' = GetJob e s"
  by (rule ext) (simp add: GetJob_def cong: option.case_cong)

lemma GetConfigMap_cong: "configMaps s' = configMaps s \<Longrightarrow> GetConfigMap e s' = GetConfigMap e s"
  by (rule ext) (simp add: GetConfigMap_def cong: option.case_cong)

lemma lookupClusterUUID_cong:
  "configMaps s' = configMaps s \<Longrightarrow> lookupClusterUUID e cd s' = lookupClusterUUID e cd s"
  using GetConfigMap_cong [of s' s e] by (simp add: lookupClusterUUID_def)

subsection \<open>The success predicate\<close>

lemma conditionStatus_find:
  "conditionStatus cs t = (case find (\<lambda>c. jc_Type c = t) cs of None \<Rightarrow> ConditionFalse | Some c \<Rightarrow> jc_Status c)"
  by (induction cs) auto

lemma conditionStatus_filter:
  "conditionStatus (filter (\<lambda>c. jc_Type c = t) cs) t = conditionStatus cs t"
  by (induction cs) auto

lemma conditionStatus_distinct:
  "distinct (map jc_Type cs) \<Longrightarrow>
   conditionStatus cs t = ConditionTrue \<longleftrightarrow> (\<exists>c\<in>set cs. jc_Type c = t \<and> jc_Status c = ConditionTrue)"
proof (induction cs)
  case Nil
  then show ?case by (simp add: ConditionFalse_neq_True)
next
  case (Cons c cs)
  then show ?case by (auto simp: image_iff)
qed

lemma conditionStatus_absent:
  "\<forall>c\<in>set cs. jc_Type c \<noteq> t \<Longrightarrow> conditionStatus cs t = ConditionFalse"
  by (induction cs) auto

text \<open>
  C6 (amended). \<^verbatim>\<open>isSuccessful\<close> is true exactly when the first condition of type
  Complete in the job's condition list has status True. For a job whose condition types
  are pairwise distinct this is: the conditions contain one of type Complete with status
  True. A job with no condition of type Complete is not successful. Two jobs whose
  conditions of type Complete agree, in order, get the same answer, whatever other
  conditions (Failed among them) either of them carries.
\<close>

theorem isSuccessful_first_Complete:
  "(isSuccessful j \<longleftrightarrow>
      (\<exists>c. find (\<lambda>c. jc_Type c = JobComplete) (job_Conditions j) = Some c \<and> jc_Status c = ConditionTrue))
   \<and> (distinct (map jc_Type (job_Conditions j)) \<longrightarrow>
        (isSuccessful j \<longleftrightarrow>
           (\<exists>c\<in>set (job_Conditions j). jc_Type c = JobComplete \<and> jc_Status c = ConditionTrue)))
   \<and> ((\<forall>c\<in>set (job_Conditions j). jc_Type c \<noteq> JobComplete) \<longrightarrow> \<not> isSuccessful j)
   \<and> (filter (\<lambda>c. jc_Type c = JobComplete) (job_Conditions j') =
         filter (\<lambda>c. jc_Type c = JobComplete) (job_Conditions j) \<longrightarrow>
       isSuccessful j' = isSuccessful j)"
proof (intro conjI impI)
  show "isSuccessful j \<longleftrightarrow>
      (\<exists>c. find (\<lambda>c. jc_Type c = JobComplete) (job_Conditions j) = Some c \<and> jc_Status c = ConditionTrue)"
    by (simp add: isSuccessful_def getJobConditionStatus_def conditionStatus_find
        ConditionFalse_neq_True split: option.splits)
next
  assume "distinct (map jc_Type (job_Conditions j))"
  then show "isSuccessful j \<longleftrightarrow>
           (\<exists>c\<in>set (job_Conditions j). jc_Type c = JobComplete \<and> jc_Status c = ConditionTrue)"
    by (simp add: isSuccessful_def getJobConditionStatus_def conditionStatus_distinct)
next
  assume "\<forall>c\<in>set (job_Conditions j). jc_Type c \<noteq> JobComplete"
  then show "\<not> isSuccessful j"
    by (simp add: isSuccessful_def getJobConditionStatus_def conditionStatus_absent
        ConditionFalse_neq_True)
next
  assume eq: "filter (\<lambda>c. jc_Type c = JobComplete) (job_Conditions j') =
         filter (\<lambda>c. jc_Type c = JobComplete) (job_Conditions j)"
  have "conditionStatus (job_Conditions j') JobComplete = conditionStatus (job_Conditions j) JobComplete"
    using conditionStatus_filter [of JobComplete "job_Conditions j'"]
      conditionStatus_filter [of JobComplete "job_Conditions j"] eq by simp
  then show "isSuccessful j' = isSuccessful j"
    by (simp add: isSuccessful_def getJobConditionStatus_def)
qed

subsection \<open>Effects of the calls\<close>

lemma logCall_fields:
  "clusterDeployments (logCall c s) = clusterDeployments s"
  "jobs (logCall c s) = jobs s"
  "configMaps (logCall c s) = configMaps s"
  "serviceAccounts (logCall c s) = serviceAccounts s"
  "roles (logCall c s) = roles s"
  "roleBindings (logCall c s) = roleBindings s"
  "calls (logCall c s) = calls s @ [c]"
  by (simp_all add: logCall_def)

lemma UpdateCall_calls: "calls (snd (UpdateCall e cd s)) = calls s @ [UpdateClusterDeployment cd]"
  by (simp add: UpdateCall_def Let_def logCall_fields split: option.splits)

lemma UpdateCall_frame:
  "jobs (snd (UpdateCall e cd s)) = jobs s"
  "configMaps (snd (UpdateCall e cd s)) = configMaps s"
  "serviceAccounts (snd (UpdateCall e cd s)) = serviceAccounts s"
  "roles (snd (UpdateCall e cd s)) = roles s"
  "roleBindings (snd (UpdateCall e cd s)) = roleBindings s"
  by (simp_all add: UpdateCall_def Let_def logCall_fields split: option.splits)

lemma DeleteCall_calls: "calls (snd (DeleteCall e cd s)) = calls s @ [DeleteClusterDeployment cd]"
  by (simp add: DeleteCall_def Let_def logCall_fields split: option.splits)

lemma DeleteCall_frame:
  "jobs (snd (DeleteCall e cd s)) = jobs s"
  "configMaps (snd (DeleteCall e cd s)) = configMaps s"
  "serviceAccounts (snd (DeleteCall e cd s)) = serviceAccounts s"
  "roles (snd (DeleteCall e cd s)) = roles s"
  "roleBindings (snd (DeleteCall e cd s)) = roleBindings s"
  by (simp_all add: DeleteCall_def Let_def logCall_fields split: option.splits)

lemma CreateJobCall_calls: "calls (snd (CreateJobCall e j s)) = calls s @ [CreateJob j]"
  by (simp add: CreateJobCall_def Let_def logCall_fields split: option.splits)

lemma CreateJobCall_frame:
  "clusterDeployments (snd (CreateJobCall e j s)) = clusterDeployments s"
  "configMaps (snd (CreateJobCall e j s)) = configMaps s"
  "serviceAccounts (snd (CreateJobCall e j s)) = serviceAccounts s"
  "roles (snd (CreateJobCall e j s)) = roles s"
  "roleBindings (snd (CreateJobCall e j s)) = roleBindings s"
  by (simp_all add: CreateJobCall_def Let_def logCall_fields split: option.splits)

lemma CreateJobCall_distinct:
  "distinct (map job_key (jobs s)) \<Longrightarrow> distinct (map job_key (jobs (snd (CreateJobCall e j s))))"
  by (auto simp: CreateJobCall_def Let_def logCall_fields split: option.splits)

subsection \<open>Access provisioning\<close>

lemma ensureServiceAccount_frame:
  assumes "ensureServiceAccount e ns s = (r, s1)"
  shows "sameResources s s1" and "\<exists>new. calls s1 = calls s @ new \<and> set new \<subseteq> accessCalls ns"
  using assms
  by (auto simp: ensureServiceAccount_def CreateServiceAccountCall_def Let_def logCall_fields
      sameResources_def accessCalls_def split: if_splits option.splits prod.splits)

lemma ensureRole_frame:
  assumes "ensureRole e ns s = (r, s1)"
  shows "sameResources s s1" and "\<exists>new. calls s1 = calls s @ new \<and> set new \<subseteq> accessCalls ns"
  using assms
  by (auto simp: ensureRole_def CreateRoleCall_def Let_def logCall_fields
      sameResources_def accessCalls_def split: if_splits option.splits prod.splits)

lemma ensureRoleBinding_frame:
  assumes "ensureRoleBinding e ns s = (r, s1)"
  shows "sameResources s s1" and "\<exists>new. calls s1 = calls s @ new \<and> set new \<subseteq> accessCalls ns"
  using assms
  by (auto simp: ensureRoleBinding_def CreateRoleBindingCall_def Let_def logCall_fields
      sameResources_def accessCalls_def split: if_splits option.splits prod.splits)

lemma sameResources_trans: "sameResources s s1 \<Longrightarrow> sameResources s1 s2 \<Longrightarrow> sameResources s s2"
  by (simp add: sameResources_def)

lemma setup_frame:
  assumes "setupClusterInstallServiceAccount e ns s = (r, s')"
  shows "sameResources s s'" and "\<exists>new. calls s' = calls s @ new \<and> set new \<subseteq> accessCalls ns"
proof -
  obtain r1 s1 where a: "ensureServiceAccount e ns s = (r1, s1)" by (cases "ensureServiceAccount e ns s")
  obtain r2 s2 where b: "ensureRole e ns s1 = (r2, s2)" by (cases "ensureRole e ns s1")
  obtain r3 s3 where c: "ensureRoleBinding e ns s2 = (r3, s3)" by (cases "ensureRoleBinding e ns s2")
  from assms a b c have "s' = s1 \<or> s' = s2 \<or> s' = s3"
    by (auto simp: setupClusterInstallServiceAccount_def split: option.splits)
  moreover note fa = ensureServiceAccount_frame [OF a] and fb = ensureRole_frame [OF b]
    and fc = ensureRoleBinding_frame [OF c]
  ultimately show "sameResources s s'"
    using sameResources_trans by blast
  from fa(2) obtain n1 where n1: "calls s1 = calls s @ n1" "set n1 \<subseteq> accessCalls ns" by blast
  from fb(2) obtain n2 where n2: "calls s2 = calls s1 @ n2" "set n2 \<subseteq> accessCalls ns" by blast
  from fc(2) obtain n3 where n3: "calls s3 = calls s2 @ n3" "set n3 \<subseteq> accessCalls ns" by blast
  from \<open>s' = s1 \<or> s' = s2 \<or> s' = s3\<close> show "\<exists>new. calls s' = calls s @ new \<and> set new \<subseteq> accessCalls ns"
  proof (elim disjE)
    assume "s' = s1" with n1 show ?thesis by blast
  next
    assume "s' = s2"
    with n1 n2 have "calls s' = calls s @ (n1 @ n2)" "set (n1 @ n2) \<subseteq> accessCalls ns" by auto
    then show ?thesis by blast
  next
    assume "s' = s3"
    with n1 n2 n3 have "calls s' = calls s @ (n1 @ n2 @ n3)" "set (n1 @ n2 @ n3) \<subseteq> accessCalls ns" by auto
    then show ?thesis by blast
  qed
qed

lemma setup_present:
  "noFaults e \<Longrightarrow> accessPresent ns s \<Longrightarrow> setupClusterInstallServiceAccount e ns s = (None, s)"
  by (simp add: setupClusterInstallServiceAccount_def ensureServiceAccount_def ensureRole_def
      ensureRoleBinding_def getNamed_def accessPresent_def noFaults_def IsNotFound_def)

lemma setup_noFaults:
  assumes "noFaults e"
  shows "\<exists>s'. setupClusterInstallServiceAccount e ns s = (None, s') \<and> accessPresent ns s'"
  using assms
  by (simp add: setupClusterInstallServiceAccount_def ensureServiceAccount_def ensureRole_def
      ensureRoleBinding_def getNamed_def accessPresent_def noFaults_def IsNotFound_def
      CreateServiceAccountCall_def CreateRoleCall_def CreateRoleBindingCall_def Let_def logCall_fields)

subsection \<open>The stages of a cycle\<close>

lemma issued_append: "calls s' = calls s @ new \<Longrightarrow> issued s s' = new"
  by (simp add: issued_def)

lemma issued_self: "issued s s = []"
  by (simp add: issued_def)

lemma sameResources_Get:
  assumes "sameResources s s'"
  shows "GetClusterDeployment e s' = GetClusterDeployment e s" and "GetJob e s' = GetJob e s"
    and "GetConfigMap e s' = GetConfigMap e s"
  using assms GetClusterDeployment_cong [of s' s e] GetJob_cong [of s' s e] GetConfigMap_cong [of s' s e]
  by (simp_all add: sameResources_def)

lemma Reconcile_missing:
  "GetClusterDeployment e s request = Inl err \<Longrightarrow>
   Reconcile e request s = ((emptyResult, if err = NotFound then None else Some err), s)"
  by (simp add: Reconcile_def IsNotFound_def)

lemma Reconcile_setup_error:
  "GetClusterDeployment e s request = Inr cd \<Longrightarrow>
   setupClusterInstallServiceAccount e (cd_Namespace cd) s = (Some err, s1) \<Longrightarrow>
   Reconcile e request s = ((emptyResult, Some err), s1)"
  by (simp add: Reconcile_def)

lemma Reconcile_deleted:
  "GetClusterDeployment e s request = Inr cd \<Longrightarrow>
   setupClusterInstallServiceAccount e (cd_Namespace cd) s = (None, s1) \<Longrightarrow>
   cd_DeletionTimestamp cd = Some t \<Longrightarrow>
   Reconcile e request s =
     (if \<not> HasFinalizer cd FinalizerDeprovision then ((emptyResult, None), s1)
      else syncDeletedClusterDeployment e cd s1)"
  by (simp add: Reconcile_def)

lemma Reconcile_active:
  "GetClusterDeployment e s request = Inr cd \<Longrightarrow>
   setupClusterInstallServiceAccount e (cd_Namespace cd) s = (None, s1) \<Longrightarrow>
   cd_DeletionTimestamp cd = None \<Longrightarrow>
   Reconcile e request s =
     (case checkDeleteAfter e cd s1 of
        (Inl out, s2) \<Rightarrow> (out, s2)
      | (Inr requeueAfter, s2) \<Rightarrow> reconcileInstall e cd requeueAfter s2)"
  by (simp add: Reconcile_def)

text \<open>The expiry step: what it returns does not depend on the store.\<close>

lemma checkDeleteAfter_fst: "fst (checkDeleteAfter e cd s') = fst (checkDeleteAfter e cd s)"
  by (simp add: checkDeleteAfter_def Let_def split: option.splits sum.splits prod.splits)

lemma checkDeleteAfter_Inr: "checkDeleteAfter e cd s = (Inr d, s') \<Longrightarrow> s' = s"
  by (auto simp: checkDeleteAfter_def Let_def split: option.splits sum.splits prod.splits if_splits)

lemma checkDeleteAfter_Inr_iff:
  "fst (checkDeleteAfter e cd s) = Inr d \<longleftrightarrow>
     (case cd_Annotations cd deleteAfterAnnotation of
        None \<Rightarrow> d = 0
      | Some a \<Rightarrow>
          (case ParseDuration e a of
             Inl _ \<Rightarrow> False
           | Inr dur \<Rightarrow>
               if cd_CreationTimestamp cd = 0 then d = 0
               else \<not> cd_CreationTimestamp cd + dur < now1 e \<and>
                    d = wrap64 (time_Sub (cd_CreationTimestamp cd + dur) (now2 e) + 60 * Second)))"
  by (auto simp: checkDeleteAfter_def Let_def time_IsZero_def time_Add_def time_After_def
      split: option.splits sum.splits prod.splits)


lemma checkDeleteAfter_zero:
  assumes "cd_CreationTimestamp cd = 0"
  shows "checkDeleteAfter e cd s = (Inr 0, s) \<or> (\<exists>err. checkDeleteAfter e cd s = (Inl (emptyResult, Some err), s))"
  using assms
  by (auto simp: checkDeleteAfter_def Let_def time_IsZero_def split: option.splits sum.splits)

lemma SetControllerReference_install:
  "SetControllerReference e cd (GenerateInstallerJob e cd) =
     (case schemeError e of Some err \<Rightarrow> Inl err | None \<Rightarrow> Inr (installJob e cd))"
  by (simp add: SetControllerReference_def GenerateInstallerJob_def installJob_def split: option.splits)

lemma installJob_fields:
  "job_key (installJob e cd) = (cd_Namespace cd, installJobName e (cd_Name cd))"
  "job_Owner (installJob e cd) = Some (cd_key cd)"
  "job_Conditions (installJob e cd) = []"
  by (simp_all add: installJob_def GenerateInstallerJob_def job_key_def)

lemma not_isSuccessful_emptyJob: "\<not> isSuccessful emptyJob"
  by (simp add: isSuccessful_def getJobConditionStatus_def emptyJob_def ConditionFalse_neq_True)

lemma not_isSuccessful_installJob: "\<not> isSuccessful (installJob e cd)"
  by (simp add: isSuccessful_def getJobConditionStatus_def installJob_fields ConditionFalse_neq_True)

text \<open>The computed status changes nothing of the resource but its status.\<close>

lemma computeStatus_fields:
  assumes "computeStatus e cd jobp s = Inr cd'"
  shows "cd_key cd' = cd_key cd" and "cd_Finalizers cd' = cd_Finalizers cd"
    and "cd_DeletionTimestamp cd' = cd_DeletionTimestamp cd"
    and "cd_Annotations cd' = cd_Annotations cd" and "cd_CreationTimestamp cd' = cd_CreationTimestamp cd"
  using assms
  by (auto simp: computeStatus_def Let_def cd_key_def split: option.splits sum.splits if_splits)

lemma updateClusterDeploymentStatus_effect:
  assumes "updateClusterDeploymentStatus e cd jobp s = (r, s')"
  shows "s' = s \<or> (\<exists>cd'. computeStatus e cd jobp s = Inr cd' \<and> cd_Status cd' \<noteq> cd_Status cd
            \<and> (r, s') = UpdateCall e cd' s)"
  using assms
  by (auto simp: updateClusterDeploymentStatus_def split: sum.splits if_splits)

lemma syncInstallJob_effect:
  assumes "syncInstallJob e cd j s = (r, s')"
  shows "(s' = s \<and> (GetJob e s (job_key j) \<noteq> Inl NotFound \<or> Installed (cd_Status cd))) \<or>
         (s' = snd (CreateJobCall e j s) \<and> GetJob e s (job_key j) = Inl NotFound \<and> \<not> Installed (cd_Status cd))"
  using assms
  by (auto simp: syncInstallJob_def IsNotFound_def split: sum.splits if_splits option.splits prod.splits)

lemma syncInstallJob_calls:
  assumes "syncInstallJob e cd j s = (r, s')"
  shows "calls s' = calls s @ (if GetJob e s (job_key j) = Inl NotFound \<and> \<not> Installed (cd_Status cd)
                                then [CreateJob j] else [])"
    and "clusterDeployments s' = clusterDeployments s" and "configMaps s' = configMaps s"
    and "distinct (map job_key (jobs s)) \<Longrightarrow> distinct (map job_key (jobs s'))"
  using syncInstallJob_effect [OF assms] CreateJobCall_calls [of e j s] CreateJobCall_frame [of e j s]
    CreateJobCall_distinct [of s e j]
  by auto

text \<open>The status update issues at most one call, an update, and touches no job.\<close>

lemma updateClusterDeploymentStatus_calls:
  assumes "updateClusterDeploymentStatus e cd jobp s = (r, s')"
  shows "calls s' = calls s \<or> (\<exists>cd'. calls s' = calls s @ [UpdateClusterDeployment cd'])"
    and "jobs s' = jobs s" and "configMaps s' = configMaps s"
proof -
  from updateClusterDeploymentStatus_effect [OF assms]
  consider "s' = s" | cd' where "(r, s') = UpdateCall e cd' s" by blast
  then have "(calls s' = calls s \<or> (\<exists>cd'. calls s' = calls s @ [UpdateClusterDeployment cd']))
      \<and> jobs s' = jobs s \<and> configMaps s' = configMaps s"
  proof cases
    case 1
    then show ?thesis by simp
  next
    case 2
    then have "s' = snd (UpdateCall e cd' s)" by (metis snd_conv)
    then show ?thesis by (simp add: UpdateCall_calls UpdateCall_frame)
  qed
  then show "calls s' = calls s \<or> (\<exists>cd'. calls s' = calls s @ [UpdateClusterDeployment cd'])"
    and "jobs s' = jobs s" and "configMaps s' = configMaps s" by simp_all
qed

text \<open>
  The calls of lines 183 to 227, for a resource that has the guard: at most one create of
  the install job, then at most one update.
\<close>

lemma reconcileInstall_calls:
  assumes fin: "HasFinalizer cd FinalizerDeprovision"
    and run: "reconcileInstall e cd d s = (out, s')"
  shows "\<exists>pre post. calls s' = calls s @ pre @ post
           \<and> pre = (if schemeError e = None \<and> GetJob e s (job_key (installJob e cd)) = Inl NotFound
                        \<and> \<not> Installed (cd_Status cd)
                     then [CreateJob (installJob e cd)] else [])
           \<and> (post = [] \<or> (\<exists>cd'. post = [UpdateClusterDeployment cd']))"
    and "distinct (map job_key (jobs s)) \<Longrightarrow> distinct (map job_key (jobs s'))"
proof -
  let ?goal = "(\<exists>pre post. calls s' = calls s @ pre @ post
           \<and> pre = (if schemeError e = None \<and> GetJob e s (job_key (installJob e cd)) = Inl NotFound
                        \<and> \<not> Installed (cd_Status cd)
                     then [CreateJob (installJob e cd)] else [])
           \<and> (post = [] \<or> (\<exists>cd'. post = [UpdateClusterDeployment cd'])))
        \<and> (distinct (map job_key (jobs s)) \<longrightarrow> distinct (map job_key (jobs s')))"
  have ?goal
  proof (cases "schemeError e")
    case (Some err)
    with fin run have "s' = s"
      by (simp add: reconcileInstall_def SetControllerReference_install)
    with Some show ?thesis by simp
  next
    case None
    obtain r3 s3 where sync: "syncInstallJob e cd (installJob e cd) s = (r3, s3)"
      by (cases "syncInstallJob e cd (installJob e cd) s")
    note c3 = syncInstallJob_calls [OF sync]
    show ?thesis
    proof (cases r3)
      case (Inl err)
      with fin run None sync have "s' = s3"
        by (simp add: reconcileInstall_def SetControllerReference_install)
      with c3 None show ?thesis by simp
    next
      case (Inr existingJob)
      obtain r4 s4 where upd: "updateClusterDeploymentStatus e cd (Some existingJob) s3 = (r4, s4)"
        by (cases "updateClusterDeploymentStatus e cd (Some existingJob) s3")
      from fin run None sync Inr upd have "s' = s4"
        by (auto simp: reconcileInstall_def SetControllerReference_install split: option.splits if_splits)
      with updateClusterDeploymentStatus_calls [OF upd] c3 None show ?thesis by auto
    qed
  qed
  then show "\<exists>pre post. calls s' = calls s @ pre @ post
           \<and> pre = (if schemeError e = None \<and> GetJob e s (job_key (installJob e cd)) = Inl NotFound
                        \<and> \<not> Installed (cd_Status cd)
                     then [CreateJob (installJob e cd)] else [])
           \<and> (post = [] \<or> (\<exists>cd'. post = [UpdateClusterDeployment cd']))"
    and "distinct (map job_key (jobs s)) \<Longrightarrow> distinct (map job_key (jobs s'))" by blast+
qed


lemma DeleteCall_resources: "jobs (snd (DeleteCall e cd s)) = jobs s"
  by (simp add: DeleteCall_frame)


subsection \<open>The deletion path\<close>

lemma uninstallJob_key: "job_key (uninstallJob e cd) = (cd_Namespace cd, uninstallJobName e (cd_Name cd))"
  by (simp add: uninstallJob_def job_key_def)

lemma UpdateCall_stored:
  assumes "faults e OpUpdateClusterDeployment = None"
  shows "\<forall>c\<in>set (clusterDeployments (snd (UpdateCall e cd s))). cd_key c = cd_key cd \<longrightarrow> c = cd"
  using assms by (auto simp: UpdateCall_def Let_def logCall_fields image_iff)

lemma syncDeleted_effect:
  assumes "syncDeletedClusterDeployment e cd s = (out, s')"
  shows "if uninstallJobError e cd = None \<and> schemeError e = None
         then (case GetJob e s (cd_Namespace cd, uninstallJobName e (cd_Name cd)) of
                 Inl err \<Rightarrow> if err = NotFound then s' = snd (CreateJobCall e (uninstallJob e cd) s) else s' = s
               | Inr j \<Rightarrow>
                   if isSuccessful j
                   then (snd out, s') = UpdateCall e (DeleteFinalizer cd FinalizerDeprovision) s
                   else s' = s)
         else s' = s"
  using assms
  by (auto simp: syncDeletedClusterDeployment_def GenerateUninstallerJob_def SetControllerReference_def
      uninstallJob_def job_key_def IsNotFound_def removeClusterDeploymentFinalizer_def
      split: option.splits sum.splits prod.splits if_splits)

lemma accessCalls_no_update: "UpdateClusterDeployment c \<notin> accessCalls ns"
  by (simp add: accessCalls_def)

text \<open>
  The deletion path in terms of \<^verbatim>\<open>isSuccessful\<close>, the test the code applies to the job it
  found.
\<close>

lemma guard_removed_iff_isSuccessful:
  assumes get: "GetClusterDeployment e s request = Inr cd"
    and del: "cd_DeletionTimestamp cd = Some t"
    and fin: "HasFinalizer cd FinalizerDeprovision"
  shows "((\<exists>c. UpdateClusterDeployment c \<in> set (issued s (snd (Reconcile e request s)))
               \<and> \<not> HasFinalizer c FinalizerDeprovision) \<longleftrightarrow>
            fst (setupClusterInstallServiceAccount e (cd_Namespace cd) s) = None
            \<and> uninstallJobError e cd = None \<and> schemeError e = None
            \<and> (\<exists>j. GetJob e s (cd_Namespace cd, uninstallJobName e (cd_Name cd)) = Inr j \<and> isSuccessful j))
       \<and> (\<forall>c. UpdateClusterDeployment c \<in> set (issued s (snd (Reconcile e request s))) \<longrightarrow>
              c = DeleteFinalizer cd FinalizerDeprovision \<and> \<not> HasFinalizer c FinalizerDeprovision)
       \<and> ((\<forall>c. UpdateClusterDeployment c \<notin> set (issued s (snd (Reconcile e request s)))) \<longrightarrow>
              clusterDeployments (snd (Reconcile e request s)) = clusterDeployments s
              \<and> cd \<in> set (clusterDeployments (snd (Reconcile e request s))))
       \<and> ((\<exists>c. UpdateClusterDeployment c \<in> set (issued s (snd (Reconcile e request s))))
              \<and> faults e OpUpdateClusterDeployment = None \<longrightarrow>
            (\<forall>c\<in>set (clusterDeployments (snd (Reconcile e request s))).
                cd_key c = request \<longrightarrow> \<not> HasFinalizer c FinalizerDeprovision))"
proof -
  let ?ns = "cd_Namespace cd"
  let ?G = FinalizerDeprovision
  let ?key = "(cd_Namespace cd, uninstallJobName e (cd_Name cd))"
  let ?s' = "snd (Reconcile e request s)"
  let ?complete = "fst (setupClusterInstallServiceAccount e ?ns s) = None
            \<and> uninstallJobError e cd = None \<and> schemeError e = None
            \<and> (\<exists>j. GetJob e s ?key = Inr j \<and> isSuccessful j)"
  obtain r1 s1 where stp: "setupClusterInstallServiceAccount e ?ns s = (r1, s1)"
    by (cases "setupClusterInstallServiceAccount e ?ns s")
  from setup_frame [OF stp] obtain n1 where same: "sameResources s s1"
    and n1: "calls s1 = calls s @ n1" "set n1 \<subseteq> accessCalls ?ns" by blast
  have n1_upd: "UpdateClusterDeployment c \<notin> set n1" for c using n1(2) accessCalls_no_update by blast
  have getjob: "GetJob e s1 = GetJob e s" using sameResources_Get(2) [OF same] .
  have cds1: "clusterDeployments s1 = clusterDeployments s" using same by (simp add: sameResources_def)
  have key: "cd_key cd = request" and mem: "cd \<in> set (clusterDeployments s)"
    using GetClusterDeployment_Inr [OF get] by simp_all
  have nofin: "\<not> HasFinalizer (DeleteFinalizer cd ?G) ?G" by (simp add: HasFinalizer_DeleteFinalizer)
  have main: "(?complete \<and> issued s ?s' = n1 @ [UpdateClusterDeployment (DeleteFinalizer cd ?G)]
                \<and> ?s' = snd (UpdateCall e (DeleteFinalizer cd ?G) s1))
        \<or> (\<not> ?complete \<and> (\<forall>c. UpdateClusterDeployment c \<notin> set (issued s ?s'))
                \<and> clusterDeployments ?s' = clusterDeployments s)"
  proof (cases r1)
    case (Some err)
    with get stp have "?s' = s1" by (simp add: Reconcile_setup_error)
    with n1 n1_upd Some stp cds1 show ?thesis by (simp add: issued_def)
  next
    case None
    from Reconcile_deleted [OF get stp [unfolded None] del] fin
    have run: "syncDeletedClusterDeployment e cd s1 = (fst (Reconcile e request s), ?s')" by simp
    note eff = syncDeleted_effect [OF run, unfolded getjob]
    show ?thesis
    proof (cases "uninstallJobError e cd = None \<and> schemeError e = None")
      case False
      with eff have "?s' = s1" by auto
      with n1 n1_upd False cds1 show ?thesis by (auto simp: issued_def)
    next
      case True
      show ?thesis
      proof (cases "GetJob e s ?key")
        case (Inl err)
        with eff True have "?s' = s1 \<or> ?s' = snd (CreateJobCall e (uninstallJob e cd) s1)"
          by (auto split: if_splits)
        then have "(issued s ?s' = n1 \<or> issued s ?s' = n1 @ [CreateJob (uninstallJob e cd)])
            \<and> clusterDeployments ?s' = clusterDeployments s"
          using n1(1) cds1 by (auto simp: issued_def CreateJobCall_calls CreateJobCall_frame)
        with n1_upd Inl show ?thesis by auto
      next
        case (Inr j)
        show ?thesis
        proof (cases "isSuccessful j")
          case False
          with eff True Inr have "?s' = s1" by simp
          with n1 n1_upd False Inr cds1 show ?thesis by (auto simp: issued_def)
        next
          case succ: True
          with eff True Inr have "?s' = snd (UpdateCall e (DeleteFinalizer cd ?G) s1)"
            by (metis (mono_tags, lifting) old.sum.simps(6) snd_conv)
          moreover from this have "issued s ?s' = n1 @ [UpdateClusterDeployment (DeleteFinalizer cd ?G)]"
            using n1(1) by (simp add: issued_def UpdateCall_calls)
          ultimately show ?thesis using True Inr succ None stp by simp
        qed
      qed
    qed
  qed
  have c1: "(\<exists>c. UpdateClusterDeployment c \<in> set (issued s ?s') \<and> \<not> HasFinalizer c ?G) \<longleftrightarrow> ?complete"
    using main nofin n1_upd by auto
  have c2: "\<forall>c. UpdateClusterDeployment c \<in> set (issued s ?s') \<longrightarrow>
              c = DeleteFinalizer cd ?G \<and> \<not> HasFinalizer c ?G"
    using main nofin n1_upd by auto
  have c3: "(\<forall>c. UpdateClusterDeployment c \<notin> set (issued s ?s')) \<longrightarrow>
              clusterDeployments ?s' = clusterDeployments s \<and> cd \<in> set (clusterDeployments ?s')"
    using main mem by auto
  have c4: "(\<exists>c. UpdateClusterDeployment c \<in> set (issued s ?s'))
              \<and> faults e OpUpdateClusterDeployment = None \<longrightarrow>
            (\<forall>c\<in>set (clusterDeployments ?s'). cd_key c = request \<longrightarrow> \<not> HasFinalizer c ?G)"
  proof (intro impI ballI, elim conjE)
    fix c
    assume upd: "\<exists>c. UpdateClusterDeployment c \<in> set (issued s ?s')"
      and nf: "faults e OpUpdateClusterDeployment = None"
      and c: "c \<in> set (clusterDeployments ?s')" "cd_key c = request"
    from main upd have s': "?s' = snd (UpdateCall e (DeleteFinalizer cd ?G) s1)" by blast
    from UpdateCall_stored [OF nf, of "DeleteFinalizer cd ?G" s1] c s' key
    have "c = DeleteFinalizer cd ?G" by (simp add: DeleteFinalizer_fields)
    with nofin show "\<not> HasFinalizer c ?G" by simp
  qed
  from c1 c2 c3 c4 show ?thesis by blast
qed

lemma isSuccessful_find:
  "isSuccessful j \<longleftrightarrow>
     (\<exists>c. find (\<lambda>c. jc_Type c = JobComplete) (job_Conditions j) = Some c \<and> jc_Status c = ConditionTrue)"
  by (simp add: isSuccessful_def getJobConditionStatus_def conditionStatus_find
      ConditionFalse_neq_True split: option.splits)

lemma isSuccessful_distinct:
  "distinct (map jc_Type (job_Conditions j)) \<Longrightarrow>
   isSuccessful j \<longleftrightarrow>
     (\<exists>c\<in>set (job_Conditions j). jc_Type c = JobComplete \<and> jc_Status c = ConditionTrue)"
  by (simp add: isSuccessful_def getJobConditionStatus_def conditionStatus_distinct)

text \<open>
  C3 (amended). For a resource with the deletion guard and a deletion request, a cycle
  issues an update that lacks the guard exactly when it reaches the lookup of the
  uninstall job (access provisioning succeeded, the job was generated, the owner link
  could be set), the lookup by the name derived from the resource's name finds a job, and
  the first condition of type Complete in that job's condition list has status True. When
  the job found has pairwise distinct condition types this is: the job carries a
  condition of type Complete with status True. The only update a cycle on this path issues
  is the one that removes the guard. When it issues none, the stored resources are what
  they were, guard included; when it issues one and the store accepts it, no stored
  resource of that name holds the guard.
\<close>

theorem guard_removed_iff_uninstall_complete:
  assumes get: "GetClusterDeployment e s request = Inr cd"
    and del: "cd_DeletionTimestamp cd = Some t"
    and fin: "HasFinalizer cd FinalizerDeprovision"
  shows "((\<exists>c. UpdateClusterDeployment c \<in> set (issued s (snd (Reconcile e request s)))
               \<and> \<not> HasFinalizer c FinalizerDeprovision) \<longleftrightarrow>
            fst (setupClusterInstallServiceAccount e (cd_Namespace cd) s) = None
            \<and> uninstallJobError e cd = None \<and> schemeError e = None
            \<and> (\<exists>j c. GetJob e s (cd_Namespace cd, uninstallJobName e (cd_Name cd)) = Inr j
                  \<and> find (\<lambda>c. jc_Type c = JobComplete) (job_Conditions j) = Some c
                  \<and> jc_Status c = ConditionTrue))
       \<and> (\<forall>j. GetJob e s (cd_Namespace cd, uninstallJobName e (cd_Name cd)) = Inr j
              \<and> distinct (map jc_Type (job_Conditions j)) \<longrightarrow>
            ((\<exists>c. UpdateClusterDeployment c \<in> set (issued s (snd (Reconcile e request s)))
                 \<and> \<not> HasFinalizer c FinalizerDeprovision) \<longleftrightarrow>
               fst (setupClusterInstallServiceAccount e (cd_Namespace cd) s) = None
               \<and> uninstallJobError e cd = None \<and> schemeError e = None
               \<and> (\<exists>c\<in>set (job_Conditions j). jc_Type c = JobComplete \<and> jc_Status c = ConditionTrue)))
       \<and> (\<forall>c. UpdateClusterDeployment c \<in> set (issued s (snd (Reconcile e request s))) \<longrightarrow>
              c = DeleteFinalizer cd FinalizerDeprovision \<and> \<not> HasFinalizer c FinalizerDeprovision)
       \<and> ((\<forall>c. UpdateClusterDeployment c \<notin> set (issued s (snd (Reconcile e request s)))) \<longrightarrow>
              clusterDeployments (snd (Reconcile e request s)) = clusterDeployments s
              \<and> cd \<in> set (clusterDeployments (snd (Reconcile e request s))))
       \<and> ((\<exists>c. UpdateClusterDeployment c \<in> set (issued s (snd (Reconcile e request s))))
              \<and> faults e OpUpdateClusterDeployment = None \<longrightarrow>
            (\<forall>c\<in>set (clusterDeployments (snd (Reconcile e request s))).
                cd_key c = request \<longrightarrow> \<not> HasFinalizer c FinalizerDeprovision))"
proof -
  let ?key = "(cd_Namespace cd, uninstallJobName e (cd_Name cd))"
  let ?lhs = "\<exists>c. UpdateClusterDeployment c \<in> set (issued s (snd (Reconcile e request s)))
               \<and> \<not> HasFinalizer c FinalizerDeprovision"
  let ?reach = "fst (setupClusterInstallServiceAccount e (cd_Namespace cd) s) = None
            \<and> uninstallJobError e cd = None \<and> schemeError e = None"
  note base = guard_removed_iff_isSuccessful [OF get del fin]
  from base have iff0: "?lhs \<longleftrightarrow> ?reach \<and> (\<exists>j. GetJob e s ?key = Inr j \<and> isSuccessful j)"
    by blast
  have c1: "?lhs \<longleftrightarrow> ?reach \<and> (\<exists>j c. GetJob e s ?key = Inr j
                  \<and> find (\<lambda>c. jc_Type c = JobComplete) (job_Conditions j) = Some c
                  \<and> jc_Status c = ConditionTrue)"
    unfolding iff0 isSuccessful_find by blast
  have c2: "\<forall>j. GetJob e s ?key = Inr j \<and> distinct (map jc_Type (job_Conditions j)) \<longrightarrow>
      (?lhs \<longleftrightarrow> ?reach
         \<and> (\<exists>c\<in>set (job_Conditions j). jc_Type c = JobComplete \<and> jc_Status c = ConditionTrue))"
  proof (intro allI impI, elim conjE)
    fix j assume j: "GetJob e s ?key = Inr j" and d: "distinct (map jc_Type (job_Conditions j))"
    from j have "(\<exists>j'. GetJob e s ?key = Inr j' \<and> isSuccessful j') \<longleftrightarrow> isSuccessful j" by auto
    with iff0 isSuccessful_distinct [OF d]
    show "?lhs \<longleftrightarrow> ?reach
         \<and> (\<exists>c\<in>set (job_Conditions j). jc_Type c = JobComplete \<and> jc_Status c = ConditionTrue)"
      by simp
  qed
  from base c1 c2 show ?thesis by blast
qed

subsection \<open>The expiry policy and the guard\<close>

lemma reconcileInstall_unguarded:
  "\<not> HasFinalizer cd FinalizerDeprovision \<Longrightarrow>
   reconcileInstall e cd d s =
     ((emptyResult, fst (UpdateCall e (AddFinalizer cd FinalizerDeprovision) s)),
      snd (UpdateCall e (AddFinalizer cd FinalizerDeprovision) s))"
  by (simp add: reconcileInstall_def addClusterDeploymentFinalizer_def split: prod.splits)

lemma reconcileInstall_result:
  assumes "HasFinalizer cd FinalizerDeprovision"
    and "reconcileInstall e cd d s = (out, s')" and "snd out = None"
  shows "fst out = (if d \<noteq> 0 then \<lparr>Requeue = True, RequeueAfter = d\<rparr> else emptyResult)"
  using assms
  by (auto simp: reconcileInstall_def split: sum.splits prod.splits option.splits if_splits)

lemma reconcileInstall_zero: "fst (fst (reconcileInstall e cd 0 s)) = emptyResult"
  by (simp add: reconcileInstall_def split: sum.splits prod.splits option.splits)

lemma syncDeleted_result: "fst (fst (syncDeletedClusterDeployment e cd s)) = emptyResult"
  by (simp add: syncDeletedClusterDeployment_def split: sum.splits prod.splits option.splits)

lemma accessCalls_no_delete: "DeleteClusterDeployment c \<notin> accessCalls ns"
  by (simp add: accessCalls_def)

lemma reconcileInstall_no_delete:
  assumes "reconcileInstall e cd d s = (out, s')"
  shows "\<exists>new. calls s' = calls s @ new \<and> (\<forall>c. DeleteClusterDeployment c \<notin> set new)"
proof (cases "HasFinalizer cd FinalizerDeprovision")
  case True
  from reconcileInstall_calls(1) [OF True assms] obtain pre post where
    c: "calls s' = calls s @ pre @ post"
    and pre: "pre = [CreateJob (installJob e cd)] \<or> pre = []"
    and post: "post = [] \<or> (\<exists>cd'. post = [UpdateClusterDeployment cd'])"
    by metis
  have "\<forall>c. DeleteClusterDeployment c \<notin> set (pre @ post)" using pre post by auto
  with c show ?thesis by blast
next
  case False
  from reconcileInstall_unguarded [OF False, of e d s] assms
  have "calls s' = calls s @ [UpdateClusterDeployment (AddFinalizer cd FinalizerDeprovision)]"
    by (auto simp: UpdateCall_calls)
  then show ?thesis by auto
qed

lemma syncDeleted_no_delete:
  assumes "syncDeletedClusterDeployment e cd s = (out, s')"
  shows "\<exists>new. calls s' = calls s @ new \<and> (\<forall>c. DeleteClusterDeployment c \<notin> set new)"
proof -
  from syncDeleted_effect [OF assms]
  have "s' = s \<or> s' = snd (CreateJobCall e (uninstallJob e cd) s)
      \<or> s' = snd (UpdateCall e (DeleteFinalizer cd FinalizerDeprovision) s)"
    by (auto split: if_splits sum.splits) (metis snd_conv)+
  then have "calls s' = calls s @ [] \<or> calls s' = calls s @ [CreateJob (uninstallJob e cd)]
      \<or> calls s' = calls s @ [UpdateClusterDeployment (DeleteFinalizer cd FinalizerDeprovision)]"
    by (auto simp: CreateJobCall_calls UpdateCall_calls)
  then show ?thesis by force
qed

text \<open>
  C10. A resource whose creation timestamp is the zero instant: whatever its delete-after
  annotation, the result of the cycle carries no requeue and no delay, and the cycle
  issues no delete. With an annotation that parses, the expiry step hands on a delay of
  0 and the store as it found it, as it does for a resource without the annotation.
\<close>

theorem zero_creation_no_expiry:
  assumes get: "GetClusterDeployment e s request = Inr cd"
    and zero: "cd_CreationTimestamp cd = 0"
  shows "fst (fst (Reconcile e request s)) = \<lparr>Requeue = False, RequeueAfter = 0\<rparr>
       \<and> (\<forall>c. DeleteClusterDeployment c \<notin> set (issued s (snd (Reconcile e request s))))
       \<and> (\<forall>a dur s1. cd_Annotations cd deleteAfterAnnotation = Some a \<and> ParseDuration e a = Inr dur \<longrightarrow>
             checkDeleteAfter e cd s1 = (Inr 0, s1))"
proof -
  let ?ns = "cd_Namespace cd"
  let ?s' = "snd (Reconcile e request s)"
  obtain r1 s1 where stp: "setupClusterInstallServiceAccount e ?ns s = (r1, s1)"
    by (cases "setupClusterInstallServiceAccount e ?ns s")
  from setup_frame [OF stp] obtain n1 where n1: "calls s1 = calls s @ n1" "set n1 \<subseteq> accessCalls ?ns"
    by blast
  have n1_del: "DeleteClusterDeployment c \<notin> set n1" for c using n1(2) accessCalls_no_delete by blast
  have main: "fst (fst (Reconcile e request s)) = emptyResult
      \<and> (\<exists>new. calls ?s' = calls s1 @ new \<and> (\<forall>c. DeleteClusterDeployment c \<notin> set new))"
  proof (cases r1)
    case (Some err)
    with get stp show ?thesis by (simp add: Reconcile_setup_error)
  next
    case None
    show ?thesis
    proof (cases "cd_DeletionTimestamp cd")
      case (Some t)
      note run = Reconcile_deleted [OF get stp [unfolded None] Some]
      show ?thesis
      proof (cases "HasFinalizer cd FinalizerDeprovision")
        case False
        with run show ?thesis by simp
      next
        case True
        with run have r: "Reconcile e request s = syncDeletedClusterDeployment e cd s1" by simp
        then have "syncDeletedClusterDeployment e cd s1 = (fst (Reconcile e request s), ?s')" by simp
        from syncDeleted_no_delete [OF this] syncDeleted_result [of e cd s1] r show ?thesis by simp
      qed
    next
      case del: None
      note act = Reconcile_active [OF get stp [unfolded None] del]
      from checkDeleteAfter_zero [OF zero, of e s1] show ?thesis
      proof (elim disjE exE)
        assume "checkDeleteAfter e cd s1 = (Inr 0, s1)"
        with act have r: "Reconcile e request s = reconcileInstall e cd 0 s1" by simp
        then have "reconcileInstall e cd 0 s1 = (fst (Reconcile e request s), ?s')" by simp
        from reconcileInstall_no_delete [OF this] reconcileInstall_zero [of e cd s1] r
        show ?thesis by simp
      next
        fix err assume "checkDeleteAfter e cd s1 = (Inl (emptyResult, Some err), s1)"
        with act show ?thesis by simp
      qed
    qed
  qed
  then obtain new where "calls ?s' = calls s @ n1 @ new" "\<forall>c. DeleteClusterDeployment c \<notin> set new"
    using n1(1) by auto
  with n1_del have "\<forall>c. DeleteClusterDeployment c \<notin> set (issued s ?s')" by (simp add: issued_def)
  moreover have "\<forall>a dur s1. cd_Annotations cd deleteAfterAnnotation = Some a \<and> ParseDuration e a = Inr dur
      \<longrightarrow> checkDeleteAfter e cd s1 = (Inr 0, s1)"
    using zero by (simp add: checkDeleteAfter_def time_IsZero_def)
  ultimately show ?thesis using main by (simp add: emptyResult_def)
qed

lemma setup_present_lookups:
  assumes "accessPresent ns s" and "faults e OpGetServiceAccount = None"
    and "faults e OpGetRole = None" and "faults e OpGetRoleBinding = None"
  shows "setupClusterInstallServiceAccount e ns s = (None, s)"
  using assms
  by (simp add: setupClusterInstallServiceAccount_def ensureServiceAccount_def ensureRole_def
      ensureRoleBinding_def getNamed_def accessPresent_def IsNotFound_def)

lemma checkDeleteAfter_continue:
  assumes "cd_Annotations cd deleteAfterAnnotation = None \<or>
     (\<exists>a dur. cd_Annotations cd deleteAfterAnnotation = Some a \<and> ParseDuration e a = Inr dur
        \<and> (cd_CreationTimestamp cd = 0 \<or> \<not> cd_CreationTimestamp cd + dur < now1 e))"
  shows "\<exists>d. checkDeleteAfter e cd s = (Inr d, s)"
  using assms
  by (auto simp: checkDeleteAfter_def Let_def time_IsZero_def time_Add_def time_After_def)

text \<open>
  C4 (amended). A resource with no deletion request, without the guard, whose
  delete-after annotation is absent or parses to a duration that has not expired (or
  whose creation timestamp is zero), in a cycle whose access provisioning succeeds: the
  cycle returns what the update that adds the guard returns. Its calls are the creates of
  the access objects that were missing, then that one update; when the three access
  objects are there and found, the update is the only call. The update carries the guard
  and the status the resource had, and the cycle leaves the jobs as they were: no install
  job is created and no status is persisted.
\<close>

theorem guard_added_first:
  assumes get: "GetClusterDeployment e s request = Inr cd"
    and del: "cd_DeletionTimestamp cd = None"
    and nofin: "\<not> HasFinalizer cd FinalizerDeprovision"
    and stp: "setupClusterInstallServiceAccount e (cd_Namespace cd) s = (None, s1)"
    and pol: "cd_Annotations cd deleteAfterAnnotation = None \<or>
       (\<exists>a dur. cd_Annotations cd deleteAfterAnnotation = Some a \<and> ParseDuration e a = Inr dur
          \<and> (cd_CreationTimestamp cd = 0 \<or> \<not> cd_CreationTimestamp cd + dur < now1 e))"
  shows "Reconcile e request s =
           ((emptyResult, fst (UpdateCall e (AddFinalizer cd FinalizerDeprovision) s1)),
            snd (UpdateCall e (AddFinalizer cd FinalizerDeprovision) s1))
       \<and> (\<exists>new. issued s (snd (Reconcile e request s)) =
                   new @ [UpdateClusterDeployment (AddFinalizer cd FinalizerDeprovision)]
               \<and> set new \<subseteq> accessCalls (cd_Namespace cd))
       \<and> (accessPresent (cd_Namespace cd) s \<and> faults e OpGetServiceAccount = None
            \<and> faults e OpGetRole = None \<and> faults e OpGetRoleBinding = None \<longrightarrow>
          issued s (snd (Reconcile e request s)) =
            [UpdateClusterDeployment (AddFinalizer cd FinalizerDeprovision)])
       \<and> HasFinalizer (AddFinalizer cd FinalizerDeprovision) FinalizerDeprovision
       \<and> cd_Status (AddFinalizer cd FinalizerDeprovision) = cd_Status cd
       \<and> jobs (snd (Reconcile e request s)) = jobs s"
proof -
  let ?u = "AddFinalizer cd FinalizerDeprovision"
  from checkDeleteAfter_continue [OF pol, of s1] obtain d where cda: "checkDeleteAfter e cd s1 = (Inr d, s1)"
    by blast
  from Reconcile_active [OF get stp del] cda reconcileInstall_unguarded [OF nofin, of e d s1]
  have run: "Reconcile e request s = ((emptyResult, fst (UpdateCall e ?u s1)), snd (UpdateCall e ?u s1))"
    by simp
  from setup_frame [OF stp] obtain n1 where same: "sameResources s s1"
    and n1: "calls s1 = calls s @ n1" "set n1 \<subseteq> accessCalls (cd_Namespace cd)" by blast
  have iss: "issued s (snd (Reconcile e request s)) = n1 @ [UpdateClusterDeployment ?u]"
    using run n1(1) by (simp add: issued_def UpdateCall_calls)
  have one: "issued s (snd (Reconcile e request s)) = [UpdateClusterDeployment ?u]"
    if "accessPresent (cd_Namespace cd) s" "faults e OpGetServiceAccount = None"
      "faults e OpGetRole = None" "faults e OpGetRoleBinding = None"
  proof -
    from setup_present_lookups [OF that] stp have "s1 = s" by simp
    with n1(1) iss show ?thesis by simp
  qed
  have "jobs (snd (Reconcile e request s)) = jobs s"
    using run same by (simp add: UpdateCall_frame sameResources_def)
  with run iss n1(2) one show ?thesis
    by (simp add: HasFinalizer_AddFinalizer AddFinalizer_fields)
qed

text \<open>
  C8 (amended). A resource with no deletion request and a creation timestamp that is not
  zero, whose delete-after annotation parses to a duration with the first clock reading
  after creation plus duration, in a cycle whose access provisioning succeeds: the cycle
  returns the empty result and no error, whatever the delete call returns. Its calls are
  the creates of the access objects that were missing, then one delete of the resource;
  when the three access objects are there and found, the delete is the only call. The
  jobs are left as they were.
\<close>

theorem expired_resource_deleted:
  assumes get: "GetClusterDeployment e s request = Inr cd"
    and del: "cd_DeletionTimestamp cd = None"
    and ann: "cd_Annotations cd deleteAfterAnnotation = Some a"
    and parse: "ParseDuration e a = Inr dur"
    and nonzero: "cd_CreationTimestamp cd \<noteq> 0"
    and expired: "cd_CreationTimestamp cd + dur < now1 e"
    and stp: "setupClusterInstallServiceAccount e (cd_Namespace cd) s = (None, s1)"
  shows "Reconcile e request s = ((emptyResult, None), snd (DeleteCall e cd s1))
       \<and> (\<exists>new. issued s (snd (Reconcile e request s)) = new @ [DeleteClusterDeployment cd]
               \<and> set new \<subseteq> accessCalls (cd_Namespace cd))
       \<and> (accessPresent (cd_Namespace cd) s \<and> faults e OpGetServiceAccount = None
            \<and> faults e OpGetRole = None \<and> faults e OpGetRoleBinding = None \<longrightarrow>
          issued s (snd (Reconcile e request s)) = [DeleteClusterDeployment cd])
       \<and> jobs (snd (Reconcile e request s)) = jobs s"
proof -
  have cda: "checkDeleteAfter e cd s1 = (Inl (emptyResult, None), snd (DeleteCall e cd s1))"
    using ann parse nonzero expired
    by (simp add: checkDeleteAfter_def Let_def time_IsZero_def time_Add_def time_After_def
        split: prod.splits)
  from Reconcile_active [OF get stp del] cda
  have run: "Reconcile e request s = ((emptyResult, None), snd (DeleteCall e cd s1))" by simp
  from setup_frame [OF stp] obtain n1 where same: "sameResources s s1"
    and n1: "calls s1 = calls s @ n1" "set n1 \<subseteq> accessCalls (cd_Namespace cd)" by blast
  have iss: "issued s (snd (Reconcile e request s)) = n1 @ [DeleteClusterDeployment cd]"
    using run n1(1) by (simp add: issued_def DeleteCall_calls)
  have one: "issued s (snd (Reconcile e request s)) = [DeleteClusterDeployment cd]"
    if "accessPresent (cd_Namespace cd) s" "faults e OpGetServiceAccount = None"
      "faults e OpGetRole = None" "faults e OpGetRoleBinding = None"
  proof -
    from setup_present_lookups [OF that] stp have "s1 = s" by simp
    with n1(1) iss show ?thesis by simp
  qed
  have "jobs (snd (Reconcile e request s)) = jobs s"
    using run same by (simp add: DeleteCall_frame sameResources_def)
  with run iss n1(2) one show ?thesis by simp
qed

lemma wrap64_id: "minDuration \<le> x \<Longrightarrow> x \<le> maxDuration \<Longrightarrow> wrap64 x = x"
  by (simp add: wrap64_def minDuration_def maxDuration_def)

text \<open>
  C9 (amended). A resource with no deletion request that holds the guard and has a
  creation timestamp that is not zero, whose delete-after annotation parses to a duration
  with neither clock reading after creation plus duration, and whose delay fits a 64-bit
  duration: when the cycle returns no error, its result asks for a requeue after
  (creation + duration - now) + 60 seconds, now being the second clock reading.
\<close>

theorem requeue_after_expiry:
  assumes get: "GetClusterDeployment e s request = Inr cd"
    and del: "cd_DeletionTimestamp cd = None"
    and fin: "HasFinalizer cd FinalizerDeprovision"
    and ann: "cd_Annotations cd deleteAfterAnnotation = Some a"
    and parse: "ParseDuration e a = Inr dur"
    and nonzero: "cd_CreationTimestamp cd \<noteq> 0"
    and notyet1: "\<not> cd_CreationTimestamp cd + dur < now1 e"
    and notyet2: "\<not> cd_CreationTimestamp cd + dur < now2 e"
    and fits: "cd_CreationTimestamp cd + dur - now2 e + 60 * Second \<le> maxDuration"
    and ok: "snd (fst (Reconcile e request s)) = None"
  shows "fst (fst (Reconcile e request s)) =
           \<lparr>Requeue = True, RequeueAfter = cd_CreationTimestamp cd + dur - now2 e + 60 * Second\<rparr>"
proof -
  let ?d = "cd_CreationTimestamp cd + dur - now2 e + 60 * Second"
  obtain r1 s1 where stp: "setupClusterInstallServiceAccount e (cd_Namespace cd) s = (r1, s1)"
    by (cases "setupClusterInstallServiceAccount e (cd_Namespace cd) s")
  have "r1 = None"
  proof (cases r1)
    case (Some err)
    with Reconcile_setup_error [OF get] stp ok show ?thesis by simp
  qed simp
  have sub: "time_Sub (cd_CreationTimestamp cd + dur) (now2 e) = cd_CreationTimestamp cd + dur - now2 e"
    using notyet2 fits by (simp add: time_Sub_def minDuration_def maxDuration_def Second_def)
  have "wrap64 ?d = ?d"
    using notyet2 fits by (intro wrap64_id) (simp_all add: minDuration_def Second_def)
  with sub have cda: "checkDeleteAfter e cd s1 = (Inr ?d, s1)"
    using ann parse nonzero notyet1
    by (simp add: checkDeleteAfter_def Let_def time_IsZero_def time_Add_def time_After_def)
  from Reconcile_active [OF get stp [unfolded \<open>r1 = None\<close>] del] cda
  have run: "reconcileInstall e cd ?d s1 = (fst (Reconcile e request s), snd (Reconcile e request s))"
    by simp
  have "?d \<noteq> 0" using notyet2 by (simp add: Second_def)
  with reconcileInstall_result [OF fin run ok] show ?thesis by simp
qed

subsection \<open>The metadata of an installed cluster\<close>

lemma GetConfigMap_absent:
  "key \<notin> cm_key ` set (configMaps s) \<Longrightarrow> \<exists>err. GetConfigMap e s key = Inl err"
proof -
  assume "key \<notin> cm_key ` set (configMaps s)"
  then have "find (\<lambda>c. cm_key c = key) (configMaps s) = None"
    by (auto simp: find_None_iff)
  then show ?thesis by (simp add: GetConfigMap_def split: option.splits)
qed

lemma lookupClusterUUID_error:
  assumes "(cd_Namespace cd, cd_Name cd @ ''-metadata'') \<notin> cm_key ` set (configMaps s)
     \<or> (\<exists>err. GetConfigMap e s (cd_Namespace cd, cd_Name cd @ ''-metadata'') = Inl err)
     \<or> (\<exists>cm err. GetConfigMap e s (cd_Namespace cd, cd_Name cd @ ''-metadata'') = Inr cm
            \<and> Unmarshal e (metadataJSON cm) = Inl err)
     \<or> (\<exists>cm objMap. GetConfigMap e s (cd_Namespace cd, cd_Name cd @ ''-metadata'') = Inr cm
            \<and> Unmarshal e (metadataJSON cm) = Inr objMap
            \<and> \<not> (\<exists>aws identifier uuid. map_of objMap ''aws'' = Some (JObject aws)
                    \<and> map_of aws ''identifier'' = Some (JObject identifier)
                    \<and> map_of identifier ''tectonicClusterID'' = Some (JString uuid)))"
  shows "\<exists>err. lookupClusterUUID e cd s = Inl err"
proof -
  from assms GetConfigMap_absent [of "(cd_Namespace cd, cd_Name cd @ ''-metadata'')" s e]
  consider err where "GetConfigMap e s (cd_Namespace cd, cd_Name cd @ ''-metadata'') = Inl err"
    | cm err where "GetConfigMap e s (cd_Namespace cd, cd_Name cd @ ''-metadata'') = Inr cm"
        "Unmarshal e (metadataJSON cm) = Inl err"
    | cm objMap where "GetConfigMap e s (cd_Namespace cd, cd_Name cd @ ''-metadata'') = Inr cm"
        "Unmarshal e (metadataJSON cm) = Inr objMap"
        "\<not> (\<exists>aws identifier uuid. map_of objMap ''aws'' = Some (JObject aws)
                    \<and> map_of aws ''identifier'' = Some (JObject identifier)
                    \<and> map_of identifier ''tectonicClusterID'' = Some (JString uuid))"
    by blast
  then show ?thesis
  proof cases
    case 1
    then show ?thesis by (simp add: lookupClusterUUID_def)
  next
    case 2
    then show ?thesis by (simp add: lookupClusterUUID_def)
  next
    case 3
    then show ?thesis
      by (auto simp: lookupClusterUUID_def split: option.splits json.splits)
  qed
qed

text \<open>
  C7. The status update for a resource whose identifier is unset and whose computed
  status is installed (the job given is successful or, were no job given, the resource is
  marked installed): when the config map named after the resource with the suffix
  -metadata is absent from the store, or its lookup fails, or its payload does not
  decode, or the decoded object lacks a string at aws, identifier, tectonicClusterID, the
  status update returns an error and the store it returns is the store it was given:
  objects and call log alike, so no update was issued.
\<close>

theorem status_update_aborts_on_bad_metadata:
  assumes inst: "case jobp of Some j \<Rightarrow> isSuccessful j | None \<Rightarrow> Installed (cd_Status cd)"
    and unset: "ClusterUUID (cd_Status cd) = []"
    and bad: "(cd_Namespace cd, cd_Name cd @ ''-metadata'') \<notin> cm_key ` set (configMaps s)
     \<or> (\<exists>err. GetConfigMap e s (cd_Namespace cd, cd_Name cd @ ''-metadata'') = Inl err)
     \<or> (\<exists>cm err. GetConfigMap e s (cd_Namespace cd, cd_Name cd @ ''-metadata'') = Inr cm
            \<and> Unmarshal e (metadataJSON cm) = Inl err)
     \<or> (\<exists>cm objMap. GetConfigMap e s (cd_Namespace cd, cd_Name cd @ ''-metadata'') = Inr cm
            \<and> Unmarshal e (metadataJSON cm) = Inr objMap
            \<and> \<not> (\<exists>aws identifier uuid. map_of objMap ''aws'' = Some (JObject aws)
                    \<and> map_of aws ''identifier'' = Some (JObject identifier)
                    \<and> map_of identifier ''tectonicClusterID'' = Some (JString uuid)))"
  shows "\<exists>err. updateClusterDeploymentStatus e cd jobp s = (Some err, s)"
proof -
  define cd1 where "cd1 = (case jobp of
      Some j \<Rightarrow> cd\<lparr>cd_Status := (cd_Status cd)\<lparr>Installed := isSuccessful j\<rparr>\<rparr>
    | None \<Rightarrow> cd)"
  have names: "cd_Namespace cd1 = cd_Namespace cd" "cd_Name cd1 = cd_Name cd"
    and st: "Installed (cd_Status cd1)" "ClusterUUID (cd_Status cd1) = []"
    using inst unset by (auto simp: cd1_def split: option.splits)
  from lookupClusterUUID_error [of cd1 s e] bad names
  obtain err where "lookupClusterUUID e cd1 s = Inl err" by auto
  with st have "computeStatus e cd jobp s = Inl err"
    unfolding computeStatus_def cd1_def [symmetric] by (simp add: Let_def)
  then show ?thesis by (simp add: updateClusterDeploymentStatus_def)
qed

text \<open>
  The same at the level of the cycle: a cycle that reaches the status update with a
  successful job found, an unset identifier and unusable metadata returns an error; it
  has issued no call but the creates of access provisioning, and the resources and jobs
  in the store are what they were.
\<close>

lemma Reconcile_aborts_on_bad_metadata:
  assumes get: "GetClusterDeployment e s request = Inr cd"
    and del: "cd_DeletionTimestamp cd = None"
    and fin: "HasFinalizer cd FinalizerDeprovision"
    and stp: "setupClusterInstallServiceAccount e (cd_Namespace cd) s = (None, s1)"
    and cda: "fst (checkDeleteAfter e cd s) = Inr d"
    and scheme: "schemeError e = None"
    and found: "GetJob e s (cd_Namespace cd, installJobName e (cd_Name cd)) = Inr j"
    and inst: "isSuccessful j"
    and unset: "ClusterUUID (cd_Status cd) = []"
    and bad: "\<exists>err. lookupClusterUUID e (cd\<lparr>cd_Status := (cd_Status cd)\<lparr>Installed := True\<rparr>\<rparr>) s = Inl err"
  shows "\<exists>err. Reconcile e request s = ((emptyResult, Some err), s1)"
    and "clusterDeployments s1 = clusterDeployments s" and "jobs s1 = jobs s"
    and "set (issued s s1) \<subseteq> accessCalls (cd_Namespace cd)"
proof -
  from setup_frame [OF stp] obtain n1 where same: "sameResources s s1"
    and n1: "calls s1 = calls s @ n1" "set n1 \<subseteq> accessCalls (cd_Namespace cd)" by blast
  show "clusterDeployments s1 = clusterDeployments s" "jobs s1 = jobs s"
    using same by (simp_all add: sameResources_def)
  show "set (issued s s1) \<subseteq> accessCalls (cd_Namespace cd)"
    using n1 by (simp add: issued_def)
  have cda1: "checkDeleteAfter e cd s1 = (Inr d, s1)"
    using checkDeleteAfter_fst [of e cd s1 s] cda checkDeleteAfter_Inr [of e cd s1 d "snd (checkDeleteAfter e cd s1)"]
    by (metis prod.collapse)
  have getjob: "GetJob e s1 (job_key (installJob e cd)) = Inr j"
    using found sameResources_Get(2) [OF same] by (simp add: installJob_fields)
  from bad obtain err where "lookupClusterUUID e (cd\<lparr>cd_Status := (cd_Status cd)\<lparr>Installed := True\<rparr>\<rparr>) s1 = Inl err"
    using lookupClusterUUID_cong [of s1 s] same by (auto simp: sameResources_def)
  with inst unset have "updateClusterDeploymentStatus e cd (Some j) s1 = (Some err, s1)"
    by (simp add: updateClusterDeploymentStatus_def computeStatus_def)
  with Reconcile_active [OF get stp del] cda1 fin scheme getjob
  have "Reconcile e request s = ((emptyResult, Some err), s1)"
    by (simp add: reconcileInstall_def SetControllerReference_install syncInstallJob_def)
  then show "\<exists>err. Reconcile e request s = ((emptyResult, Some err), s1)" by blast
qed

subsection \<open>A second cycle on the store the first one left\<close>

lemma checkDeleteAfter_not_expired:
  "\<not> expired e cd \<Longrightarrow> snd (checkDeleteAfter e cd s) = s"
  by (auto simp: checkDeleteAfter_def expired_def Let_def time_IsZero_def time_Add_def time_After_def
      split: option.splits sum.splits prod.splits)

lemma checkDeleteAfter_same_policy:
  assumes "cd_Annotations cd' = cd_Annotations cd" and "cd_CreationTimestamp cd' = cd_CreationTimestamp cd"
  shows "fst (checkDeleteAfter e cd' s) = fst (checkDeleteAfter e cd s)"
    and "expired e cd' = expired e cd"
  using assms
  by (auto simp: checkDeleteAfter_def expired_def Let_def split: option.splits sum.splits prod.splits)

lemma find_map_replace:
  "\<exists>x\<in>set xs. f x = k \<Longrightarrow> f y = k \<Longrightarrow>
   find (\<lambda>c. f c = k) (map (\<lambda>c. if f c = k then y else c) xs) = Some y"
  by (induction xs) auto

lemma UpdateCall_accepted:
  assumes "noFaults e" and "GetClusterDeployment e s (cd_key cd) = Inr cd0"
    and "cd_DeletionTimestamp cd = None"
  shows "fst (UpdateCall e cd s) = None"
    and "GetClusterDeployment e (snd (UpdateCall e cd s)) (cd_key cd) = Inr cd"
proof -
  from GetClusterDeployment_Inr [OF assms(2)]
  have mem: "cd0 \<in> set (clusterDeployments s)" "cd_key cd0 = cd_key cd" by simp_all
  then have "cd_key cd \<in> cd_key ` set (clusterDeployments s)" by (metis image_eqI)
  with assms(1,3) have upd: "UpdateCall e cd s =
      (None, (logCall (UpdateClusterDeployment cd) s)\<lparr>clusterDeployments :=
          map (\<lambda>c. if cd_key c = cd_key cd then cd else c) (clusterDeployments s)\<rparr>)"
    by (simp add: UpdateCall_def noFaults_def Let_def)
  then show "fst (UpdateCall e cd s) = None" by simp
  have "find (\<lambda>c. cd_key c = cd_key cd)
      (map (\<lambda>c. if cd_key c = cd_key cd then cd else c) (clusterDeployments s)) = Some cd"
    using mem by (intro find_map_replace) auto
  with upd assms(1) show "GetClusterDeployment e (snd (UpdateCall e cd s)) (cd_key cd) = Inr cd"
    by (simp add: GetClusterDeployment_def noFaults_def)
qed

lemma GetJob_noFaults:
  assumes "noFaults e" and "GetJob e s k = Inl err"
  shows "err = NotFound" and "k \<notin> job_key ` set (jobs s)"
  using assms
  by (auto simp: GetJob_def noFaults_def find_None_iff split: option.splits)

lemma find_append_new:
  "\<forall>x\<in>set xs. \<not> P x \<Longrightarrow> P y \<Longrightarrow> find P (xs @ [y]) = Some y"
  by (induction xs) auto

lemma CreateJobCall_accepted:
  assumes "noFaults e" and "job_key j \<notin> job_key ` set (jobs s)"
  shows "fst (CreateJobCall e j s) = None"
    and "GetJob e (snd (CreateJobCall e j s)) (job_key j) = Inr j"
proof -
  from assms have cr: "CreateJobCall e j s = (None, (logCall (CreateJob j) s)\<lparr>jobs := jobs s @ [j]\<rparr>)"
    by (simp add: CreateJobCall_def noFaults_def Let_def)
  then show "fst (CreateJobCall e j s) = None" by simp
  have "find (\<lambda>x. job_key x = job_key j) (jobs s @ [j]) = Some j"
    using assms(2) by (intro find_append_new) (auto simp: image_iff)
  with cr assms(1) show "GetJob e (snd (CreateJobCall e j s)) (job_key j) = Inr j"
    by (simp add: GetJob_def noFaults_def)
qed

lemma lookupClusterUUID_names:
  assumes "cd_Namespace cd' = cd_Namespace cd" and "cd_Name cd' = cd_Name cd"
    and "configMaps s' = configMaps s"
  shows "lookupClusterUUID e cd' s' = lookupClusterUUID e cd s"
  using assms GetConfigMap_cong [of s' s e] by (simp add: lookupClusterUUID_def)

lemma computeStatus_idem:
  assumes run: "computeStatus e cd (Some j) s = Inr cd'" and cms: "configMaps s' = configMaps s"
  shows "computeStatus e cd' (Some j) s' = Inr cd'"
proof -
  let ?cd1 = "cd\<lparr>cd_Status := (cd_Status cd)\<lparr>Installed := isSuccessful j\<rparr>\<rparr>"
  show ?thesis
  proof (cases "isSuccessful j \<and> ClusterUUID (cd_Status cd) = []")
    case False
    with run have "cd' = ?cd1" by (auto simp: computeStatus_def)
    with False show ?thesis by (auto simp: computeStatus_def)
  next
    case True
    with run obtain uuid where l: "lookupClusterUUID e ?cd1 s = Inr uuid"
      and cd': "cd' = ?cd1\<lparr>cd_Status := (cd_Status ?cd1)\<lparr>ClusterUUID := uuid\<rparr>\<rparr>"
      by (auto simp: computeStatus_def Let_def split: sum.splits)
    have l': "lookupClusterUUID e cd' s' = Inr uuid"
      using lookupClusterUUID_names [of cd' ?cd1 s' s e] l cms cd' by simp
    have eq1: "cd'\<lparr>cd_Status := (cd_Status cd')\<lparr>Installed := isSuccessful j\<rparr>\<rparr> = cd'"
      using True cd' by simp
    have eq2: "cd'\<lparr>cd_Status := (cd_Status cd')\<lparr>ClusterUUID := uuid\<rparr>\<rparr> = cd'"
      using cd' by simp
    have "computeStatus e cd' (Some j) s' =
        (if Installed (cd_Status cd') \<and> ClusterUUID (cd_Status cd') = []
         then (case lookupClusterUUID e cd' s' of
                 Inl err \<Rightarrow> Inl err
               | Inr u \<Rightarrow> Inr (cd'\<lparr>cd_Status := (cd_Status cd')\<lparr>ClusterUUID := u\<rparr>\<rparr>))
         else Inr cd')"
      unfolding computeStatus_def Let_def option.case eq1 ..
    then show ?thesis using l' eq2 by simp
  qed
qed

lemma installJob_same: "cd_key cd' = cd_key cd \<Longrightarrow> installJob e cd' = installJob e cd"
  by (simp add: installJob_def GenerateInstallerJob_def cd_key_def)

lemma reconcileInstall_guarded:
  assumes "HasFinalizer cd FinalizerDeprovision" and "schemeError e = None"
  shows "reconcileInstall e cd d s =
     (case syncInstallJob e cd (installJob e cd) s of
        (Inl err, s1) \<Rightarrow> ((emptyResult, Some err), s1)
      | (Inr existingJob, s1) \<Rightarrow>
          (case updateClusterDeploymentStatus e cd (Some existingJob) s1 of
             (Some err, s2) \<Rightarrow> ((emptyResult, Some err), s2)
           | (None, s2) \<Rightarrow> ((resultOf d, None), s2)))"
  using assms
  by (simp add: reconcileInstall_def SetControllerReference_install resultOf_def
      split: prod.splits sum.splits option.splits)

lemma sameAccess_present: "sameAccess s s' \<Longrightarrow> accessPresent ns s \<Longrightarrow> accessPresent ns s'"
  by (simp add: sameAccess_def accessPresent_def)

lemma reconcileInstall_idem:
  assumes nf: "noFaults e"
    and fin: "HasFinalizer cd FinalizerDeprovision"
    and del: "cd_DeletionTimestamp cd = None"
    and get: "GetClusterDeployment e s (cd_key cd) = Inr cd"
    and noslip: "\<not> (Installed (cd_Status cd) \<and> GetJob e s (job_key (installJob e cd)) = Inl NotFound)"
    and run: "reconcileInstall e cd d s = (out, s')"
  shows "\<exists>cd'. GetClusterDeployment e s' (cd_key cd) = Inr cd' \<and> cd_key cd' = cd_key cd
           \<and> cd_DeletionTimestamp cd' = None \<and> cd_Finalizers cd' = cd_Finalizers cd
           \<and> cd_Annotations cd' = cd_Annotations cd \<and> cd_CreationTimestamp cd' = cd_CreationTimestamp cd
           \<and> reconcileInstall e cd' d s' = (out, s') \<and> sameAccess s s'"
proof -
  let ?j = "installJob e cd"
  let ?P = "\<lambda>cd'. GetClusterDeployment e s' (cd_key cd) = Inr cd' \<and> cd_key cd' = cd_key cd
           \<and> cd_DeletionTimestamp cd' = None \<and> cd_Finalizers cd' = cd_Finalizers cd
           \<and> cd_Annotations cd' = cd_Annotations cd \<and> cd_CreationTimestamp cd' = cd_CreationTimestamp cd
           \<and> reconcileInstall e cd' d s' = (out, s') \<and> sameAccess s s'"
  have self: "?P cd" if "s' = s"
    using that get del run by (simp add: sameAccess_def)
  show ?thesis
  proof (cases "schemeError e")
    case (Some err)
    with fin run have "s' = s" by (simp add: reconcileInstall_def SetControllerReference_install)
    from self [OF this] show ?thesis by blast
  next
    case None
    note ri = reconcileInstall_guarded [OF fin None]
    show ?thesis
    proof (cases "GetJob e s (job_key ?j)")
      case (Inr ex)
      then have sync: "syncInstallJob e cd ?j s = (Inr ex, s)" by (simp add: syncInstallJob_def)
      show ?thesis
      proof (cases "computeStatus e cd (Some ex) s")
        case (Inl err)
        with run ri sync have "s' = s" by (simp add: updateClusterDeploymentStatus_def)
        from self [OF this] show ?thesis by blast
      next
        case cs: (Inr cdn)
        note f = computeStatus_fields [OF cs]
        show ?thesis
        proof (cases "cd_Status cdn = cd_Status cd")
          case True
          with run ri sync cs have "s' = s" by (simp add: updateClusterDeploymentStatus_def)
          from self [OF this] show ?thesis by blast
        next
          case False
          have deln: "cd_DeletionTimestamp cdn = None" using f(3) del by simp
          have getn: "GetClusterDeployment e s (cd_key cdn) = Inr cd" using get f(1) by simp
          obtain r2 s2 where upd0: "UpdateCall e cdn s = (r2, s2)" by (cases "UpdateCall e cdn s")
          from UpdateCall_accepted [OF nf getn deln] upd0
          have upd: "UpdateCall e cdn s = (None, s2)"
            and get2: "GetClusterDeployment e s2 (cd_key cdn) = Inr cdn" by simp_all
          with run ri sync cs False have out: "out = (resultOf d, None)" and s': "s' = s2"
            by (simp_all add: updateClusterDeploymentStatus_def)
          have fin_n: "HasFinalizer cdn FinalizerDeprovision"
            using fin f(2) by (simp add: HasFinalizer_def)
          have s2: "s2 = snd (UpdateCall e cdn s)" using upd by simp
          have jobs2: "jobs s2 = jobs s" and cms2: "configMaps s2 = configMaps s"
            by (simp_all add: s2 UpdateCall_frame)
          have getjob2: "GetJob e s2 (job_key ?j) = Inr ex"
            using GetJob_cong [OF jobs2, of e] Inr by simp
          have sync2: "syncInstallJob e cdn (installJob e cdn) s2 = (Inr ex, s2)"
            using getjob2 installJob_same [OF f(1), of e] by (simp add: syncInstallJob_def)
          have cs2: "computeStatus e cdn (Some ex) s2 = Inr cdn"
            using computeStatus_idem [OF cs cms2] .
          have "reconcileInstall e cdn d s2 = ((resultOf d, None), s2)"
            using reconcileInstall_guarded [OF fin_n None, of d s2] sync2 cs2
            by (simp add: updateClusterDeploymentStatus_def)
          moreover have "sameAccess s s2" by (simp add: s2 sameAccess_def UpdateCall_frame)
          ultimately have "?P cdn"
            using get2 f deln out s' by simp
          then show ?thesis by blast
        qed
      qed
    next
      case (Inl err)
      from GetJob_noFaults [OF nf Inl] have err: "err = NotFound"
        and absent: "job_key ?j \<notin> job_key ` set (jobs s)" by simp_all
      with noslip Inl have notinst: "\<not> Installed (cd_Status cd)" by simp
      obtain r3 s3 where cr0: "CreateJobCall e ?j s = (r3, s3)" by (cases "CreateJobCall e ?j s")
      from CreateJobCall_accepted [OF nf absent] cr0
      have cr: "CreateJobCall e ?j s = (None, s3)"
        and getjob3: "GetJob e s3 (job_key ?j) = Inr ?j" by simp_all
      have s3: "s3 = snd (CreateJobCall e ?j s)" using cr by simp
      have sync: "syncInstallJob e cd ?j s = (Inr emptyJob, s3)"
        using Inl err notinst cr by (simp add: syncInstallJob_def IsNotFound_def)
      have same_status: "cd_Status (cd\<lparr>cd_Status := (cd_Status cd)\<lparr>Installed := False\<rparr>\<rparr>) = cd_Status cd"
        using notinst by simp
      have cs: "\<not> isSuccessful jb \<Longrightarrow>
          updateClusterDeploymentStatus e cd (Some jb) s3 = (None, s3)" for jb
        using same_status notinst by (simp add: updateClusterDeploymentStatus_def computeStatus_def)
      from run ri sync cs [OF not_isSuccessful_emptyJob]
      have out: "out = (resultOf d, None)" and s': "s' = s3" by simp_all
      have cds3: "clusterDeployments s3 = clusterDeployments s" by (simp add: s3 CreateJobCall_frame)
      have get3: "GetClusterDeployment e s3 (cd_key cd) = Inr cd"
        using GetClusterDeployment_cong [OF cds3, of e] get by simp
      have sync3: "syncInstallJob e cd ?j s3 = (Inr ?j, s3)"
        using getjob3 by (simp add: syncInstallJob_def)
      have "reconcileInstall e cd d s3 = ((resultOf d, None), s3)"
        using ri [of d s3] sync3 cs [OF not_isSuccessful_installJob] by simp
      moreover have "sameAccess s s3" by (simp add: s3 sameAccess_def CreateJobCall_frame)
      ultimately have "?P cd" using get3 del out s' by simp
      then show ?thesis by blast
    qed
  qed
qed

text \<open>
  C2 (amended). In an environment where no store call fails, for a resource in the store
  with no deletion request that holds the guard, is not expired, and is not marked
  installed while its install job is missing: a second cycle, run with the same
  environment on the store the first cycle left, returns the outcome the first returned
  and returns that store as it is, objects and call log alike. So the second cycle
  issues no create, update or delete, and the stored status is the same.
\<close>

theorem second_cycle_is_noop:
  assumes nf: "noFaults e"
    and get: "GetClusterDeployment e s request = Inr cd"
    and del: "cd_DeletionTimestamp cd = None"
    and fin: "HasFinalizer cd FinalizerDeprovision"
    and notexp: "\<not> expired e cd"
    and noslip: "\<not> (Installed (cd_Status cd) \<and>
                    GetJob e s (cd_Namespace cd, installJobName e (cd_Name cd)) = Inl NotFound)"
  shows "Reconcile e request (snd (Reconcile e request s)) =
           (fst (Reconcile e request s), snd (Reconcile e request s))
       \<and> issued (snd (Reconcile e request s)) (snd (Reconcile e request (snd (Reconcile e request s)))) = []"
proof -
  let ?ns = "cd_Namespace cd"
  have key: "cd_key cd = request" using GetClusterDeployment_Inr(1) [OF get] .
  from setup_noFaults [OF nf, of ?ns s] obtain s1 where
    stp: "setupClusterInstallServiceAccount e ?ns s = (None, s1)" and pres: "accessPresent ?ns s1"
    by blast
  from setup_frame(1) [OF stp] have same: "sameResources s s1" .
  have get1: "GetClusterDeployment e s1 request = Inr cd"
    using sameResources_Get(1) [OF same, of e] get by simp
  have stp1: "setupClusterInstallServiceAccount e ?ns t = (None, t)" if "accessPresent ?ns t" for t
    using setup_present [OF nf that] .
  note act = Reconcile_active [OF get stp del]
  obtain x where cda: "checkDeleteAfter e cd t = (x, t)" for t
    using checkDeleteAfter_not_expired [OF notexp] checkDeleteAfter_fst [of e cd]
    by (metis prod.collapse)
  have first: "Reconcile e request (snd (Reconcile e request s)) =
           (fst (Reconcile e request s), snd (Reconcile e request s))"
  proof (cases x)
    case (Inl out)
    with act cda [of s1] have r: "Reconcile e request s = (out, s1)" by simp
    from Reconcile_active [OF get1 stp1 [OF pres] del] cda [of s1] Inl
    have "Reconcile e request s1 = (out, s1)" by simp
    with r show ?thesis by simp
  next
    case (Inr d)
    with act cda [of s1]
    have r: "Reconcile e request s = reconcileInstall e cd d s1" by simp
    obtain out s' where run: "reconcileInstall e cd d s1 = (out, s')"
      by (cases "reconcileInstall e cd d s1")
    have noslip1: "\<not> (Installed (cd_Status cd) \<and> GetJob e s1 (job_key (installJob e cd)) = Inl NotFound)"
      using noslip sameResources_Get(2) [OF same, of e] by (simp add: installJob_fields)
    from reconcileInstall_idem [OF nf fin del get1 [folded key] noslip1 run]
    obtain cd' where get': "GetClusterDeployment e s' request = Inr cd'"
      and key': "cd_key cd' = cd_key cd" and del': "cd_DeletionTimestamp cd' = None"
      and ann': "cd_Annotations cd' = cd_Annotations cd"
      and cre': "cd_CreationTimestamp cd' = cd_CreationTimestamp cd"
      and run': "reconcileInstall e cd' d s' = (out, s')" and acc: "sameAccess s1 s'"
      using key by auto
    have ns': "cd_Namespace cd' = ?ns" using key' by (simp add: cd_key_def)
    have pres': "accessPresent (cd_Namespace cd') s'"
      using sameAccess_present [OF acc pres] ns' by simp
    have notexp': "\<not> expired e cd'" using checkDeleteAfter_same_policy(2) [OF ann' cre'] notexp by simp
    have cda': "checkDeleteAfter e cd' s' = (Inr d, s')"
      using checkDeleteAfter_same_policy(1) [OF ann' cre', of e s'] cda [of s'] Inr
        checkDeleteAfter_not_expired [OF notexp', of s']
      by (metis fst_conv prod.collapse)
    from Reconcile_active [OF get' setup_present [OF nf pres'] del'] cda' run'
    have "Reconcile e request s' = (out, s')" by simp
    with r run show ?thesis by simp
  qed
  then show ?thesis by (simp add: issued_def)
qed

subsection \<open>An installed resource whose install job is gone\<close>

text \<open>
  The defect behind C1, for any resource: on the active path, with the install job not
  found and the resource marked installed, the cycle reaches the status update with the
  zero job, computes \<^verbatim>\<open>Installed\<close> as false and issues an update that carries it.
\<close>

lemma missing_job_reverts_Installed:
  assumes get: "GetClusterDeployment e s request = Inr cd"
    and del: "cd_DeletionTimestamp cd = None"
    and fin: "HasFinalizer cd FinalizerDeprovision"
    and stp: "setupClusterInstallServiceAccount e (cd_Namespace cd) s = (None, s1)"
    and cda: "fst (checkDeleteAfter e cd s) = Inr d"
    and scheme: "schemeError e = None"
    and missing: "GetJob e s (cd_Namespace cd, installJobName e (cd_Name cd)) = Inl NotFound"
    and inst: "Installed (cd_Status cd)"
  shows "snd (Reconcile e request s) =
           snd (UpdateCall e (cd\<lparr>cd_Status := (cd_Status cd)\<lparr>Installed := False\<rparr>\<rparr>) s1)"
    and "issued s1 (snd (Reconcile e request s)) =
           [UpdateClusterDeployment (cd\<lparr>cd_Status := (cd_Status cd)\<lparr>Installed := False\<rparr>\<rparr>)]"
proof -
  let ?cd' = "cd\<lparr>cd_Status := (cd_Status cd)\<lparr>Installed := False\<rparr>\<rparr>"
  from setup_frame(1) [OF stp] have same: "sameResources s s1" .
  have cda1: "checkDeleteAfter e cd s1 = (Inr d, s1)"
    using checkDeleteAfter_fst [of e cd s1 s] cda
      checkDeleteAfter_Inr [of e cd s1 d "snd (checkDeleteAfter e cd s1)"]
    by (metis prod.collapse)
  have getjob: "GetJob e s1 (job_key (installJob e cd)) = Inl NotFound"
    using missing sameResources_Get(2) [OF same] by (simp add: installJob_fields)
  have sync: "syncInstallJob e cd (installJob e cd) s1 = (Inr emptyJob, s1)"
    using getjob inst by (simp add: syncInstallJob_def IsNotFound_def)
  have "\<not> Installed (cd_Status ?cd')" by simp
  with inst have "cd_Status ?cd' \<noteq> cd_Status cd" by metis
  then have upd: "updateClusterDeploymentStatus e cd (Some emptyJob) s1 = UpdateCall e ?cd' s1"
    using not_isSuccessful_emptyJob
    by (simp add: updateClusterDeploymentStatus_def computeStatus_def)
  from Reconcile_active [OF get stp del] cda1 reconcileInstall_guarded [OF fin scheme, of d s1] sync upd
  show "snd (Reconcile e request s) = snd (UpdateCall e ?cd' s1)"
    by (simp split: prod.splits option.splits)
  then show "issued s1 (snd (Reconcile e request s)) = [UpdateClusterDeployment ?cd']"
    by (simp add: issued_def UpdateCall_calls)
qed

subsection \<open>Evaluation\<close>

lemmas example_defs = exampleEnv_def exampleParse_def exampleUnmarshal_def exampleCD_def exampleStore_def guardedCD_def pendingInstallJob_def

lemmas model_defs = Reconcile_def GetClusterDeployment_def cd_key_def job_key_def cm_key_def
  setupClusterInstallServiceAccount_def ensureServiceAccount_def ensureRole_def ensureRoleBinding_def
  getNamed_def IsNotFound_def serviceAccountName_def roleName_def roleBindingName_def
  checkDeleteAfter_def reconcileInstall_def HasFinalizer_def syncInstallJob_def GetJob_def
  SetControllerReference_def GenerateInstallerJob_def updateClusterDeploymentStatus_def
  computeStatus_def lookupClusterUUID_def GetConfigMap_def metadataJSON_def
  isSuccessful_def getJobConditionStatus_def emptyJob_def UpdateCall_def DeleteCall_def logCall_def
  CreateJobCall_def CreateServiceAccountCall_def CreateRoleCall_def CreateRoleBindingCall_def
  deleteAfterAnnotation_def emptyResult_def ConditionFalse_def ConditionTrue_def
  JobComplete_def syncDeletedClusterDeployment_def GenerateUninstallerJob_def
  removeClusterDeploymentFinalizer_def addClusterDeploymentFinalizer_def AddFinalizer_def
  DeleteFinalizer_def stringSetList_def time_IsZero_def time_Add_def time_After_def
  time_Sub_def wrap64_def Second_def minDuration_def maxDuration_def markDeleted_def

text \<open>
  C1 (the code at the failing input). The resource is installed, with its identifier set,
  and holds the guard; the store has no install job. The lookup leaves \<^verbatim>\<open>existingJob\<close> at
  its zero value, which is not nil, so line 235 sets \<^verbatim>\<open>Installed\<close> to false and the
  cycle persists that status.
\<close>

theorem Reconcile_reverts_Installed:
  "Reconcile (exampleEnv (63679220200 * Second)) (''ns'', ''c1'') (exampleStore installedCD []) =
     ((emptyResult, None),
      (exampleStore (installedCD\<lparr>cd_Status := \<lparr>Installed = False, ClusterUUID = ''abc''\<rparr>\<rparr>) [])
        \<lparr>calls := [UpdateClusterDeployment
                     (installedCD\<lparr>cd_Status := \<lparr>Installed = False, ClusterUUID = ''abc''\<rparr>\<rparr>)]\<rparr>)"
  by (simp add: example_defs installedCD_def model_defs issued_def Let_def)

theorem isSuccessful_first_Complete_witness:
  "distinct (map jc_Type (job_Conditions failedCompleteJob))
   \<and> isSuccessful failedCompleteJob
   \<and> job_Conditions emptyJob = []
   \<and> \<not> isSuccessful emptyJob
   \<and> filter (\<lambda>c. jc_Type c = JobComplete) (job_Conditions completeUninstallJob) =
       filter (\<lambda>c. jc_Type c = JobComplete) (job_Conditions failedCompleteJob)
   \<and> isSuccessful completeUninstallJob = isSuccessful failedCompleteJob"
  using isSuccessful_first_Complete [of failedCompleteJob completeUninstallJob]
    isSuccessful_first_Complete [of emptyJob emptyJob]
  by (simp add: failedCompleteJob_def completeUninstallJob_def emptyJob_def JobComplete_def
      ConditionTrue_def)

text \<open>
  C6 (counterexample). The conditions hold one of type Complete with status True, after
  one of type Complete with status False; the loop returns at the first.
\<close>

theorem isSuccessful_contains_counterexample:
  "\<lparr>jc_Type = JobComplete, jc_Status = ConditionTrue\<rparr> \<in> set (job_Conditions twoCompleteJob)
   \<and> \<not> isSuccessful twoCompleteJob"
  by (simp add: twoCompleteJob_def isSuccessful_def getJobConditionStatus_def
      JobComplete_def ConditionTrue_def)


text \<open>
  C3 (counterexample). The resource has the guard and a deletion request, the lookup
  finds the uninstall job, and the job carries a condition of type Complete with status
  True, after one of type Complete with status False. The cycle issues no call and
  the stored resource keeps the guard.
\<close>

theorem guard_kept_despite_Complete_counterexample:
  "GetClusterDeployment (exampleEnv (63679224200 * Second)) (exampleStore deletedCD [twoCompleteUninstallJob])
      (''ns'', ''c1'') = Inr deletedCD
   \<and> cd_DeletionTimestamp deletedCD = Some (63679223200 * Second)
   \<and> HasFinalizer deletedCD FinalizerDeprovision
   \<and> GetJob (exampleEnv (63679224200 * Second)) (exampleStore deletedCD [twoCompleteUninstallJob])
        (''ns'', ''c1-uninstall'') = Inr twoCompleteUninstallJob
   \<and> \<lparr>jc_Type = JobComplete, jc_Status = ConditionTrue\<rparr> \<in> set (job_Conditions twoCompleteUninstallJob)
   \<and> Reconcile (exampleEnv (63679224200 * Second)) (''ns'', ''c1'')
        (exampleStore deletedCD [twoCompleteUninstallJob]) =
       ((emptyResult, None), exampleStore deletedCD [twoCompleteUninstallJob])"
  by (simp add: example_defs deletedCD_def installedCD_def twoCompleteUninstallJob_def
      completeUninstallJob_def model_defs uninstallJob_def Let_def)

theorem guard_removed_iff_uninstall_complete_witness:
  "GetClusterDeployment (exampleEnv (63679224200 * Second)) (exampleStore deletedCD [completeUninstallJob])
      (''ns'', ''c1'') = Inr deletedCD
   \<and> cd_DeletionTimestamp deletedCD = Some (63679223200 * Second)
   \<and> HasFinalizer deletedCD FinalizerDeprovision
   \<and> GetJob (exampleEnv (63679224200 * Second)) (exampleStore deletedCD [completeUninstallJob])
        (''ns'', ''c1-uninstall'') = Inr completeUninstallJob
   \<and> find (\<lambda>c. jc_Type c = JobComplete) (job_Conditions completeUninstallJob) =
        Some \<lparr>jc_Type = ''Complete'', jc_Status = ''True''\<rparr>
   \<and> distinct (map jc_Type (job_Conditions completeUninstallJob))
   \<and> (\<exists>c. UpdateClusterDeployment c \<in> set (issued (exampleStore deletedCD [completeUninstallJob])
          (snd (Reconcile (exampleEnv (63679224200 * Second)) (''ns'', ''c1'')
                 (exampleStore deletedCD [completeUninstallJob]))))
        \<and> \<not> HasFinalizer c FinalizerDeprovision)
   \<and> GetJob (exampleEnv (63679224200 * Second)) (exampleStore deletedCD [pendingUninstallJob])
        (''ns'', ''c1-uninstall'') = Inr pendingUninstallJob
   \<and> job_Conditions pendingUninstallJob = []
   \<and> clusterDeployments (snd (Reconcile (exampleEnv (63679224200 * Second)) (''ns'', ''c1'')
          (exampleStore deletedCD [pendingUninstallJob]))) = [deletedCD]"
proof -
  let ?e = "exampleEnv (63679224200 * Second)" and ?s = "exampleStore deletedCD [completeUninstallJob]"
  let ?t = "exampleStore deletedCD [pendingUninstallJob]"
  have h1: "GetClusterDeployment ?e ?s (''ns'', ''c1'') = Inr deletedCD"
    by (simp add: example_defs deletedCD_def installedCD_def GetClusterDeployment_def cd_key_def)
  have h2: "cd_DeletionTimestamp deletedCD = Some (63679223200 * Second)"
    by (simp add: example_defs deletedCD_def installedCD_def)
  have h3: "HasFinalizer deletedCD FinalizerDeprovision"
    by (simp add: example_defs deletedCD_def installedCD_def HasFinalizer_def)
  have h4: "GetJob ?e ?s (''ns'', ''c1-uninstall'') = Inr completeUninstallJob"
    by (simp add: example_defs completeUninstallJob_def GetJob_def job_key_def)
  have h5: "find (\<lambda>c. jc_Type c = JobComplete) (job_Conditions completeUninstallJob) =
        Some \<lparr>jc_Type = ''Complete'', jc_Status = ''True''\<rparr>"
    by (simp add: completeUninstallJob_def JobComplete_def)
  have h5': "jc_Status \<lparr>jc_Type = ''Complete'', jc_Status = ''True''\<rparr> = ConditionTrue"
    by (simp add: ConditionTrue_def)
  have h5d: "distinct (map jc_Type (job_Conditions completeUninstallJob))"
    by (simp add: completeUninstallJob_def)
  have h6: "fst (setupClusterInstallServiceAccount ?e (cd_Namespace deletedCD) ?s) = None"
    by (simp add: example_defs deletedCD_def installedCD_def model_defs Let_def)
  have h7: "uninstallJobError ?e deletedCD = None \<and> schemeError ?e = None
      \<and> uninstallJobName ?e (cd_Name deletedCD) = ''c1-uninstall'' \<and> cd_Namespace deletedCD = ''ns''"
    by (simp add: example_defs deletedCD_def installedCD_def)
  note t1 = guard_removed_iff_uninstall_complete [OF h1 h2 h3]
  from t1 have iff1: "(\<exists>c. UpdateClusterDeployment c \<in> set (issued ?s (snd (Reconcile ?e (''ns'', ''c1'') ?s)))
        \<and> \<not> HasFinalizer c FinalizerDeprovision) \<longleftrightarrow>
      fst (setupClusterInstallServiceAccount ?e (cd_Namespace deletedCD) ?s) = None
      \<and> uninstallJobError ?e deletedCD = None \<and> schemeError ?e = None
      \<and> (\<exists>j c. GetJob ?e ?s (cd_Namespace deletedCD, uninstallJobName ?e (cd_Name deletedCD)) = Inr j
            \<and> find (\<lambda>c. jc_Type c = JobComplete) (job_Conditions j) = Some c
            \<and> jc_Status c = ConditionTrue)"
    by blast
  have "\<exists>j c. GetJob ?e ?s (cd_Namespace deletedCD, uninstallJobName ?e (cd_Name deletedCD)) = Inr j
            \<and> find (\<lambda>c. jc_Type c = JobComplete) (job_Conditions j) = Some c
            \<and> jc_Status c = ConditionTrue"
    using h4 h5 h5' h7 by auto
  with iff1 h6 h7
  have a: "\<exists>c. UpdateClusterDeployment c \<in> set (issued ?s (snd (Reconcile ?e (''ns'', ''c1'') ?s)))
        \<and> \<not> HasFinalizer c FinalizerDeprovision" by blast
  have g1: "GetClusterDeployment ?e ?t (''ns'', ''c1'') = Inr deletedCD"
    by (simp add: example_defs deletedCD_def installedCD_def GetClusterDeployment_def cd_key_def)
  have g4: "GetJob ?e ?t (''ns'', ''c1-uninstall'') = Inr pendingUninstallJob"
    by (simp add: example_defs pendingUninstallJob_def completeUninstallJob_def GetJob_def job_key_def)
  have g5: "job_Conditions pendingUninstallJob = []"
    by (simp add: pendingUninstallJob_def completeUninstallJob_def)
  have g6: "clusterDeployments ?t = [deletedCD]" by (simp add: example_defs)
  note t2 = guard_removed_iff_uninstall_complete [OF g1 h2 h3]
  have none: "\<not> (\<exists>j c. GetJob ?e ?t (cd_Namespace deletedCD, uninstallJobName ?e (cd_Name deletedCD)) = Inr j
            \<and> find (\<lambda>c. jc_Type c = JobComplete) (job_Conditions j) = Some c
            \<and> jc_Status c = ConditionTrue)"
    using g4 g5 h7 by auto
  from t2 none
  have "\<not> (\<exists>c. UpdateClusterDeployment c \<in> set (issued ?t (snd (Reconcile ?e (''ns'', ''c1'') ?t)))
        \<and> \<not> HasFinalizer c FinalizerDeprovision)" by blast
  moreover from t2
  have "\<forall>c. UpdateClusterDeployment c \<in> set (issued ?t (snd (Reconcile ?e (''ns'', ''c1'') ?t))) \<longrightarrow>
      \<not> HasFinalizer c FinalizerDeprovision" by blast
  ultimately have "\<forall>c. UpdateClusterDeployment c \<notin> set (issued ?t (snd (Reconcile ?e (''ns'', ''c1'') ?t)))"
    by blast
  with t2 have "clusterDeployments (snd (Reconcile ?e (''ns'', ''c1'') ?t)) = clusterDeployments ?t"
    by blast
  with g6 have b: "clusterDeployments (snd (Reconcile ?e (''ns'', ''c1'') ?t)) = [deletedCD]" by simp
  from h1 h2 h3 h4 h5 h5d a g4 g5 b show ?thesis by blast
qed

text \<open>
  C2 (counterexample). A new resource in a namespace that has its access objects: the
  first cycle adds the guard and returns; the second, on the store the first left, with
  nothing changed in between, creates the install job.
\<close>

theorem second_cycle_creates_job_counterexample:
  "cd_DeletionTimestamp exampleCD = None
   \<and> issued (exampleStore exampleCD [])
        (snd (Reconcile (exampleEnv (63679220200 * Second)) (''ns'', ''c1'') (exampleStore exampleCD []))) =
      [UpdateClusterDeployment guardedCD]
   \<and> issued (snd (Reconcile (exampleEnv (63679220200 * Second)) (''ns'', ''c1'') (exampleStore exampleCD [])))
        (snd (Reconcile (exampleEnv (63679220200 * Second)) (''ns'', ''c1'')
           (snd (Reconcile (exampleEnv (63679220200 * Second)) (''ns'', ''c1'') (exampleStore exampleCD []))))) =
      [CreateJob pendingInstallJob]"
proof -
  let ?e = "exampleEnv (63679220200 * Second)"
  have first: "Reconcile ?e (''ns'', ''c1'') (exampleStore exampleCD []) =
      ((emptyResult, None), (exampleStore guardedCD [])\<lparr>calls := [UpdateClusterDeployment guardedCD]\<rparr>)"
    by (simp add: example_defs model_defs issued_def Let_def)
  have second: "Reconcile ?e (''ns'', ''c1'')
        ((exampleStore guardedCD [])\<lparr>calls := [UpdateClusterDeployment guardedCD]\<rparr>) =
      ((emptyResult, None),
       (exampleStore guardedCD [pendingInstallJob])
         \<lparr>calls := [UpdateClusterDeployment guardedCD, CreateJob pendingInstallJob]\<rparr>)"
    by (simp add: example_defs model_defs issued_def Let_def)
  show ?thesis
    unfolding first second snd_conv
    by (simp add: issued_def exampleStore_def exampleCD_def)
qed

text \<open>
  Why the amended C2 asks that no store call fails: an expired resource in a store that
  refuses the delete. The first cycle's delete changes no object, and the second cycle
  issues the delete again.
\<close>

lemma refused_delete_is_repeated:
  "Reconcile (refusingEnv (63679226400 * Second)) (''ns'', ''c1'') (exampleStore oneHourCD [pendingInstallJob]) =
     ((emptyResult, None),
      (exampleStore oneHourCD [pendingInstallJob])\<lparr>calls := [DeleteClusterDeployment oneHourCD]\<rparr>)
   \<and> Reconcile (refusingEnv (63679226400 * Second)) (''ns'', ''c1'')
       ((exampleStore oneHourCD [pendingInstallJob])\<lparr>calls := [DeleteClusterDeployment oneHourCD]\<rparr>) =
     ((emptyResult, None),
      (exampleStore oneHourCD [pendingInstallJob])
        \<lparr>calls := [DeleteClusterDeployment oneHourCD, DeleteClusterDeployment oneHourCD]\<rparr>)"
  by (simp add: example_defs oneHourCD_def refusingEnv_def model_defs issued_def Let_def)

theorem second_cycle_is_noop_witness:
  "noFaults (exampleEnv (63679220200 * Second))
   \<and> GetClusterDeployment (exampleEnv (63679220200 * Second)) (completedStore [metadataCM]) (''ns'', ''c1'') = Inr guardedCD
   \<and> cd_DeletionTimestamp guardedCD = None
   \<and> HasFinalizer guardedCD FinalizerDeprovision
   \<and> \<not> expired (exampleEnv (63679220200 * Second)) guardedCD
   \<and> GetJob (exampleEnv (63679220200 * Second)) (completedStore [metadataCM]) (''ns'', ''c1-install'') = Inr completeInstallJob
   \<and> issued (completedStore [metadataCM])
        (snd (Reconcile (exampleEnv (63679220200 * Second)) (''ns'', ''c1'') (completedStore [metadataCM]))) =
      [UpdateClusterDeployment (guardedCD\<lparr>cd_Status := \<lparr>Installed = True, ClusterUUID = ''abc''\<rparr>\<rparr>)]
   \<and> issued (snd (Reconcile (exampleEnv (63679220200 * Second)) (''ns'', ''c1'') (completedStore [metadataCM])))
        (snd (Reconcile (exampleEnv (63679220200 * Second)) (''ns'', ''c1'')
           (snd (Reconcile (exampleEnv (63679220200 * Second)) (''ns'', ''c1'') (completedStore [metadataCM]))))) = []"
proof -
  let ?e = "exampleEnv (63679220200 * Second)" and ?s = "completedStore [metadataCM]"
  have h1: "noFaults ?e" by (simp add: noFaults_def exampleEnv_def)
  have h2: "GetClusterDeployment ?e ?s (''ns'', ''c1'') = Inr guardedCD"
    by (simp add: example_defs completeInstallJob_def metadataCM_def completedStore_def GetClusterDeployment_def cd_key_def)
  have h3: "cd_DeletionTimestamp guardedCD = None" by (simp add: example_defs completeInstallJob_def metadataCM_def completedStore_def)
  have h4: "HasFinalizer guardedCD FinalizerDeprovision" by (simp add: example_defs completeInstallJob_def metadataCM_def completedStore_def HasFinalizer_def)
  have h5: "\<not> expired ?e guardedCD" by (simp add: example_defs completeInstallJob_def metadataCM_def completedStore_def expired_def)
  have h6: "GetJob ?e ?s (''ns'', ''c1-install'') = Inr completeInstallJob"
    by (simp add: example_defs completeInstallJob_def metadataCM_def completedStore_def GetJob_def job_key_def)
  have h7: "\<not> (Installed (cd_Status guardedCD) \<and>
      GetJob ?e ?s (cd_Namespace guardedCD, installJobName ?e (cd_Name guardedCD)) = Inl NotFound)"
    by (simp add: example_defs completeInstallJob_def metadataCM_def completedStore_def)
  have ev: "issued ?s (snd (Reconcile ?e (''ns'', ''c1'') ?s)) =
      [UpdateClusterDeployment (guardedCD\<lparr>cd_Status := \<lparr>Installed = True, ClusterUUID = ''abc''\<rparr>\<rparr>)]"
    by (simp add: example_defs completeInstallJob_def metadataCM_def completedStore_def model_defs issued_def Let_def)
  from second_cycle_is_noop [OF h1 h2 h3 h4 h5 h7] h1 h2 h3 h4 h5 h6 ev
  show ?thesis by blast
qed

text \<open>
  C4 (counterexample). A new resource in a namespace that has no access object yet: the
  cycle that adds the guard issues four calls, three of them creates.
\<close>

theorem guard_cycle_four_calls_counterexample:
  "cd_DeletionTimestamp exampleCD = None
   \<and> cd_Annotations exampleCD deleteAfterAnnotation = None
   \<and> \<not> HasFinalizer exampleCD FinalizerDeprovision
   \<and> issued freshStore (snd (Reconcile (exampleEnv (63679220200 * Second)) (''ns'', ''c1'') freshStore)) =
      [CreateServiceAccount ''ns'' ''cluster-installer'', CreateRole ''ns'' ''cluster-installer'',
       CreateRoleBinding ''ns'' ''cluster-installer'', UpdateClusterDeployment guardedCD]"
  by (simp add: example_defs freshStore_def model_defs issued_def Let_def)

theorem guard_added_first_witness:
  "GetClusterDeployment (exampleEnv (63679220200 * Second)) freshStore (''ns'', ''c1'') = Inr exampleCD
   \<and> cd_DeletionTimestamp exampleCD = None
   \<and> \<not> HasFinalizer exampleCD FinalizerDeprovision
   \<and> setupClusterInstallServiceAccount (exampleEnv (63679220200 * Second)) (cd_Namespace exampleCD) freshStore =
       (None, provisionedStore)
   \<and> cd_Annotations exampleCD deleteAfterAnnotation = None
   \<and> AddFinalizer exampleCD FinalizerDeprovision = guardedCD
   \<and> Reconcile (exampleEnv (63679220200 * Second)) (''ns'', ''c1'') freshStore =
       ((emptyResult, fst (UpdateCall (exampleEnv (63679220200 * Second)) guardedCD provisionedStore)),
        snd (UpdateCall (exampleEnv (63679220200 * Second)) guardedCD provisionedStore))
   \<and> jobs (snd (Reconcile (exampleEnv (63679220200 * Second)) (''ns'', ''c1'') freshStore)) = jobs freshStore"
proof -
  let ?e = "exampleEnv (63679220200 * Second)"
  have h1: "GetClusterDeployment ?e freshStore (''ns'', ''c1'') = Inr exampleCD"
    by (simp add: example_defs freshStore_def provisionedStore_def GetClusterDeployment_def cd_key_def)
  have h2: "cd_DeletionTimestamp exampleCD = None" by (simp add: example_defs freshStore_def provisionedStore_def)
  have h3: "\<not> HasFinalizer exampleCD FinalizerDeprovision" by (simp add: example_defs freshStore_def provisionedStore_def HasFinalizer_def)
  have h4: "setupClusterInstallServiceAccount ?e (cd_Namespace exampleCD) freshStore = (None, provisionedStore)"
    by (simp add: example_defs freshStore_def provisionedStore_def model_defs issued_def Let_def)
  have h5: "cd_Annotations exampleCD deleteAfterAnnotation = None" by (simp add: example_defs freshStore_def provisionedStore_def)
  have h6: "AddFinalizer exampleCD FinalizerDeprovision = guardedCD"
    by (simp add: example_defs freshStore_def provisionedStore_def AddFinalizer_def stringSetList_def)
  note t = guard_added_first [OF h1 h2 h3 h4 disjI1 [OF h5], unfolded h6]
  from t have "Reconcile ?e (''ns'', ''c1'') freshStore =
       ((emptyResult, fst (UpdateCall ?e guardedCD provisionedStore)),
        snd (UpdateCall ?e guardedCD provisionedStore))"
    and "jobs (snd (Reconcile ?e (''ns'', ''c1'') freshStore)) = jobs freshStore" by blast+
  with h1 h2 h3 h4 h5 h6 show ?thesis by blast
qed

text \<open>
  C7 at three inputs: a store without the config map; a config map whose payload lacks
  the path; a config map without the key metadata.json, whose payload, the empty string,
  does not decode.
\<close>

theorem status_update_aborts_on_bad_metadata_witness:
  "isSuccessful completeInstallJob
   \<and> ClusterUUID (cd_Status guardedCD) = []
   \<and> (cd_Namespace guardedCD, cd_Name guardedCD @ ''-metadata'') \<notin> cm_key ` set (configMaps (completedStore []))
   \<and> GetConfigMap (exampleEnv (63679220200 * Second)) (completedStore [brokenMetadataCM])
        (cd_Namespace guardedCD, cd_Name guardedCD @ ''-metadata'') = Inr brokenMetadataCM
   \<and> Unmarshal (exampleEnv (63679220200 * Second)) (metadataJSON brokenMetadataCM) = Inr [(''aws'', JObject [])]
   \<and> GetConfigMap (exampleEnv (63679220200 * Second)) (completedStore [emptyMetadataCM])
        (cd_Namespace guardedCD, cd_Name guardedCD @ ''-metadata'') = Inr emptyMetadataCM
   \<and> Unmarshal (exampleEnv (63679220200 * Second)) (metadataJSON emptyMetadataCM) =
        Inl (Message ''unexpected end of JSON input'')
   \<and> (\<exists>err. updateClusterDeploymentStatus (exampleEnv (63679220200 * Second)) guardedCD (Some completeInstallJob)
          (completedStore []) = (Some err, completedStore []))
   \<and> (\<exists>err. updateClusterDeploymentStatus (exampleEnv (63679220200 * Second)) guardedCD (Some completeInstallJob)
          (completedStore [brokenMetadataCM]) = (Some err, completedStore [brokenMetadataCM]))
   \<and> (\<exists>err. updateClusterDeploymentStatus (exampleEnv (63679220200 * Second)) guardedCD (Some completeInstallJob)
          (completedStore [emptyMetadataCM]) = (Some err, completedStore [emptyMetadataCM]))"
proof -
  let ?e = "exampleEnv (63679220200 * Second)"
  let ?key = "(cd_Namespace guardedCD, cd_Name guardedCD @ ''-metadata'')"
  have h1: "isSuccessful completeInstallJob"
    by (simp add: example_defs completeInstallJob_def isSuccessful_def getJobConditionStatus_def
        JobComplete_def ConditionTrue_def)
  have h2: "ClusterUUID (cd_Status guardedCD) = []" by (simp add: example_defs)
  have h3: "?key \<notin> cm_key ` set (configMaps (completedStore []))"
    by (simp add: example_defs completedStore_def)
  have h4: "GetConfigMap ?e (completedStore [brokenMetadataCM]) ?key = Inr brokenMetadataCM"
    by (simp add: example_defs completedStore_def brokenMetadataCM_def GetConfigMap_def cm_key_def)
  have h5: "Unmarshal ?e (metadataJSON brokenMetadataCM) = Inr [(''aws'', JObject [])]"
    by (simp add: example_defs brokenMetadataCM_def metadataJSON_def)
  have h6: "\<not> (\<exists>aws identifier uuid. map_of [(''aws'', JObject [])] ''aws'' = Some (JObject aws)
                    \<and> map_of aws ''identifier'' = Some (JObject identifier)
                    \<and> map_of identifier ''tectonicClusterID'' = Some (JString uuid))"
    by simp
  have h7: "GetConfigMap ?e (completedStore [emptyMetadataCM]) ?key = Inr emptyMetadataCM"
    by (simp add: example_defs completedStore_def emptyMetadataCM_def GetConfigMap_def cm_key_def)
  have h8: "Unmarshal ?e (metadataJSON emptyMetadataCM) = Inl (Message ''unexpected end of JSON input'')"
    by (simp add: example_defs emptyMetadataCM_def metadataJSON_def)
  have h0: "case Some completeInstallJob of Some j \<Rightarrow> isSuccessful j
      | None \<Rightarrow> Installed (cd_Status guardedCD)"
    using h1 by simp
  have a: "\<exists>err. updateClusterDeploymentStatus ?e guardedCD (Some completeInstallJob)
          (completedStore []) = (Some err, completedStore [])"
    by (rule status_update_aborts_on_bad_metadata [OF h0 h2 disjI1 [OF h3]])
  have b: "\<exists>err. updateClusterDeploymentStatus ?e guardedCD (Some completeInstallJob)
          (completedStore [brokenMetadataCM]) = (Some err, completedStore [brokenMetadataCM])"
    using h4 h5 h6
    by (intro status_update_aborts_on_bad_metadata [OF h0 h2]) blast
  have c: "\<exists>err. updateClusterDeploymentStatus ?e guardedCD (Some completeInstallJob)
          (completedStore [emptyMetadataCM]) = (Some err, completedStore [emptyMetadataCM])"
    using h7 h8
    by (intro status_update_aborts_on_bad_metadata [OF h0 h2]) blast
  from h1 h2 h3 h4 h5 h7 h8 a b c show ?thesis by blast
qed

text \<open>
  C8 (counterexample). The creation timestamp is zero, the annotation parses to one
  hour, and the clock reads 1 December 2018, 2:00 UTC, so the clock is after creation
  plus duration; the cycle issues no delete, and no other call either.
\<close>

theorem zero_creation_not_deleted_counterexample:
  "cd_DeletionTimestamp zeroCreationCD = None
   \<and> cd_Annotations zeroCreationCD deleteAfterAnnotation = Some ''1h''
   \<and> ParseDuration (exampleEnv (63679226400 * Second)) ''1h'' = Inr (3600 * Second)
   \<and> time_After (now1 (exampleEnv (63679226400 * Second)))
        (time_Add (cd_CreationTimestamp zeroCreationCD) (3600 * Second))
   \<and> Reconcile (exampleEnv (63679226400 * Second)) (''ns'', ''c1'') (exampleStore zeroCreationCD [pendingInstallJob]) =
       ((emptyResult, None), exampleStore zeroCreationCD [pendingInstallJob])"
  by (simp add: example_defs zeroCreationCD_def oneHourCD_def model_defs issued_def Let_def)

theorem expired_resource_deleted_witness:
  "GetClusterDeployment (refusingEnv (63679226400 * Second)) (exampleStore oneHourCD [pendingInstallJob])
      (''ns'', ''c1'') = Inr oneHourCD
   \<and> cd_DeletionTimestamp oneHourCD = None
   \<and> cd_Annotations oneHourCD deleteAfterAnnotation = Some ''1h''
   \<and> ParseDuration (refusingEnv (63679226400 * Second)) ''1h'' = Inr (3600 * Second)
   \<and> cd_CreationTimestamp oneHourCD \<noteq> 0
   \<and> cd_CreationTimestamp oneHourCD + 3600 * Second < now1 (refusingEnv (63679226400 * Second))
   \<and> setupClusterInstallServiceAccount (refusingEnv (63679226400 * Second)) (cd_Namespace oneHourCD)
        (exampleStore oneHourCD [pendingInstallJob]) = (None, exampleStore oneHourCD [pendingInstallJob])
   \<and> fst (DeleteCall (refusingEnv (63679226400 * Second)) oneHourCD (exampleStore oneHourCD [pendingInstallJob])) =
       Some (StoreError ''conflict'')
   \<and> fst (Reconcile (refusingEnv (63679226400 * Second)) (''ns'', ''c1'') (exampleStore oneHourCD [pendingInstallJob])) =
       (emptyResult, None)
   \<and> issued (exampleStore oneHourCD [pendingInstallJob])
        (snd (Reconcile (refusingEnv (63679226400 * Second)) (''ns'', ''c1'') (exampleStore oneHourCD [pendingInstallJob]))) =
       [DeleteClusterDeployment oneHourCD]"
proof -
  let ?e = "refusingEnv (63679226400 * Second)" and ?s = "exampleStore oneHourCD [pendingInstallJob]"
  have h1: "GetClusterDeployment ?e ?s (''ns'', ''c1'') = Inr oneHourCD"
    by (simp add: example_defs oneHourCD_def refusingEnv_def GetClusterDeployment_def cd_key_def)
  have h2: "cd_DeletionTimestamp oneHourCD = None" by (simp add: example_defs oneHourCD_def refusingEnv_def)
  have h3: "cd_Annotations oneHourCD deleteAfterAnnotation = Some ''1h''" by (simp add: example_defs oneHourCD_def refusingEnv_def)
  have h4: "ParseDuration ?e ''1h'' = Inr (3600 * Second)" by (simp add: example_defs oneHourCD_def refusingEnv_def)
  have h5: "cd_CreationTimestamp oneHourCD \<noteq> 0" by (simp add: example_defs oneHourCD_def refusingEnv_def Second_def)
  have h6: "cd_CreationTimestamp oneHourCD + 3600 * Second < now1 ?e"
    by (simp add: example_defs oneHourCD_def refusingEnv_def Second_def)
  have h7: "setupClusterInstallServiceAccount ?e (cd_Namespace oneHourCD) ?s = (None, ?s)"
    by (simp add: example_defs oneHourCD_def refusingEnv_def model_defs issued_def Let_def)
  have h8: "fst (DeleteCall ?e oneHourCD ?s) = Some (StoreError ''conflict'')"
    by (simp add: example_defs oneHourCD_def refusingEnv_def DeleteCall_def Let_def)
  have h9: "accessPresent (cd_Namespace oneHourCD) ?s \<and> faults ?e OpGetServiceAccount = None
      \<and> faults ?e OpGetRole = None \<and> faults ?e OpGetRoleBinding = None"
    by (simp add: example_defs oneHourCD_def refusingEnv_def accessPresent_def serviceAccountName_def roleName_def roleBindingName_def)
  note t = expired_resource_deleted [OF h1 h2 h3 h4 h5 h6 h7]
  from t have "Reconcile ?e (''ns'', ''c1'') ?s = ((emptyResult, None), snd (DeleteCall ?e oneHourCD ?s))"
    by blast
  then have "fst (Reconcile ?e (''ns'', ''c1'') ?s) = (emptyResult, None)" by simp
  moreover from t h9
  have "issued ?s (snd (Reconcile ?e (''ns'', ''c1'') ?s)) = [DeleteClusterDeployment oneHourCD]"
    by blast
  ultimately have "fst (Reconcile ?e (''ns'', ''c1'') ?s) = (emptyResult, None)"
    and "issued ?s (snd (Reconcile ?e (''ns'', ''c1'') ?s)) = [DeleteClusterDeployment oneHourCD]"
    by blast+
  with h1 h2 h3 h4 h5 h6 h7 h8 show ?thesis by blast
qed

text \<open>
  C9 (counterexample). The annotation parses to 48 hours and the resource was created
  one hour before the clock reading, so it has not expired; it has no guard yet. The
  cycle adds the guard and its result carries no requeue and no delay.
\<close>

theorem unguarded_no_delay_counterexample:
  "cd_DeletionTimestamp twoDaysUnguardedCD = None
   \<and> cd_Annotations twoDaysUnguardedCD deleteAfterAnnotation = Some ''48h''
   \<and> ParseDuration (exampleEnv (63679222800 * Second)) ''48h'' = Inr (172800 * Second)
   \<and> cd_CreationTimestamp twoDaysUnguardedCD = 63679219200 * Second
   \<and> \<not> time_After (now1 (exampleEnv (63679222800 * Second)))
          (time_Add (cd_CreationTimestamp twoDaysUnguardedCD) (172800 * Second))
   \<and> fst (Reconcile (exampleEnv (63679222800 * Second)) (''ns'', ''c1'') (exampleStore twoDaysUnguardedCD [])) =
       (\<lparr>Requeue = False, RequeueAfter = 0\<rparr>, None)"
  by (simp add: example_defs twoDaysUnguardedCD_def model_defs issued_def Let_def)

theorem requeue_after_expiry_witness:
  "GetClusterDeployment (exampleEnv (63679222800 * Second)) (exampleStore twoDaysCD [pendingInstallJob])
      (''ns'', ''c1'') = Inr twoDaysCD
   \<and> cd_DeletionTimestamp twoDaysCD = None
   \<and> HasFinalizer twoDaysCD FinalizerDeprovision
   \<and> cd_Annotations twoDaysCD deleteAfterAnnotation = Some ''48h''
   \<and> ParseDuration (exampleEnv (63679222800 * Second)) ''48h'' = Inr (172800 * Second)
   \<and> cd_CreationTimestamp twoDaysCD = 63679219200 * Second
   \<and> snd (fst (Reconcile (exampleEnv (63679222800 * Second)) (''ns'', ''c1'')
        (exampleStore twoDaysCD [pendingInstallJob]))) = None
   \<and> fst (fst (Reconcile (exampleEnv (63679222800 * Second)) (''ns'', ''c1'')
        (exampleStore twoDaysCD [pendingInstallJob]))) =
       \<lparr>Requeue = True, RequeueAfter = 169260 * Second\<rparr>"
proof -
  let ?e = "exampleEnv (63679222800 * Second)" and ?s = "exampleStore twoDaysCD [pendingInstallJob]"
  have h1: "GetClusterDeployment ?e ?s (''ns'', ''c1'') = Inr twoDaysCD"
    by (simp add: example_defs twoDaysCD_def GetClusterDeployment_def cd_key_def)
  have h2: "cd_DeletionTimestamp twoDaysCD = None" by (simp add: example_defs twoDaysCD_def)
  have h3: "HasFinalizer twoDaysCD FinalizerDeprovision" by (simp add: example_defs twoDaysCD_def HasFinalizer_def)
  have h4: "cd_Annotations twoDaysCD deleteAfterAnnotation = Some ''48h''" by (simp add: example_defs twoDaysCD_def)
  have h5: "ParseDuration ?e ''48h'' = Inr (172800 * Second)" by (simp add: example_defs twoDaysCD_def)
  have h6: "cd_CreationTimestamp twoDaysCD = 63679219200 * Second" by (simp add: example_defs twoDaysCD_def)
  have h7: "cd_CreationTimestamp twoDaysCD \<noteq> 0" by (simp add: example_defs twoDaysCD_def Second_def)
  have h8: "\<not> cd_CreationTimestamp twoDaysCD + 172800 * Second < now1 ?e"
    by (simp add: example_defs twoDaysCD_def Second_def)
  have h9: "\<not> cd_CreationTimestamp twoDaysCD + 172800 * Second < now2 ?e"
    by (simp add: example_defs twoDaysCD_def Second_def)
  have h10: "cd_CreationTimestamp twoDaysCD + 172800 * Second - now2 ?e + 60 * Second \<le> maxDuration"
    by (simp add: example_defs twoDaysCD_def Second_def maxDuration_def)
  have h11: "snd (fst (Reconcile ?e (''ns'', ''c1'') ?s)) = None"
    by (simp add: example_defs twoDaysCD_def model_defs issued_def Let_def)
  have d: "cd_CreationTimestamp twoDaysCD + 172800 * Second - now2 ?e + 60 * Second = 169260 * Second"
    by (simp add: example_defs twoDaysCD_def Second_def)
  from requeue_after_expiry [OF h1 h2 h3 h4 h5 h7 h8 h9 h10 h11] d
  have "fst (fst (Reconcile ?e (''ns'', ''c1'') ?s)) = \<lparr>Requeue = True, RequeueAfter = 169260 * Second\<rparr>"
    by simp
  with h1 h2 h3 h4 h5 h6 h11 show ?thesis by blast
qed

theorem zero_creation_no_expiry_witness:
  "GetClusterDeployment (exampleEnv (63679226400 * Second)) (exampleStore zeroCreationCD [pendingInstallJob])
      (''ns'', ''c1'') = Inr zeroCreationCD
   \<and> cd_CreationTimestamp zeroCreationCD = 0
   \<and> cd_Annotations zeroCreationCD deleteAfterAnnotation = Some ''1h''
   \<and> ParseDuration (exampleEnv (63679226400 * Second)) ''1h'' = Inr (3600 * Second)
   \<and> fst (fst (Reconcile (exampleEnv (63679226400 * Second)) (''ns'', ''c1'')
        (exampleStore zeroCreationCD [pendingInstallJob]))) = \<lparr>Requeue = False, RequeueAfter = 0\<rparr>
   \<and> checkDeleteAfter (exampleEnv (63679226400 * Second)) zeroCreationCD (exampleStore zeroCreationCD [pendingInstallJob]) =
       (Inr 0, exampleStore zeroCreationCD [pendingInstallJob])"
proof -
  let ?e = "exampleEnv (63679226400 * Second)" and ?s = "exampleStore zeroCreationCD [pendingInstallJob]"
  have h1: "GetClusterDeployment ?e ?s (''ns'', ''c1'') = Inr zeroCreationCD"
    by (simp add: example_defs zeroCreationCD_def oneHourCD_def GetClusterDeployment_def cd_key_def)
  have h2: "cd_CreationTimestamp zeroCreationCD = 0" by (simp add: example_defs zeroCreationCD_def oneHourCD_def)
  have h3: "cd_Annotations zeroCreationCD deleteAfterAnnotation = Some ''1h''" by (simp add: example_defs zeroCreationCD_def oneHourCD_def)
  have h4: "ParseDuration ?e ''1h'' = Inr (3600 * Second)" by (simp add: example_defs zeroCreationCD_def oneHourCD_def)
  from zero_creation_no_expiry [OF h1 h2] h3 h4
  have "fst (fst (Reconcile ?e (''ns'', ''c1'') ?s)) = \<lparr>Requeue = False, RequeueAfter = 0\<rparr>"
    and "checkDeleteAfter ?e zeroCreationCD ?s = (Inr 0, ?s)" by blast+
  with h1 h2 h3 h4 show ?thesis by blast
qed

end
